theory Spec2Isabelle
  imports
    Main
    "HOL-Library.Product_Lexorder"
    "HOL-Library.List_Lexorder"
    "HOL-Library.Char_ord"
begin

section \<open>Data model\<close>

text \<open>
  Python's naive \<open>datetime.date\<close> and \<open>datetime.time\<close> compare as the tuples
  (year, month, day) and (hour, minute, second, microsecond); the product order used here
  is that lexicographic order. Time zone offsets are not part of the model.
\<close>

type_synonym date = "nat \<times> nat \<times> nat"
type_synonym time = "nat \<times> nat \<times> nat \<times> nat"

text \<open>\<open>time(hour=h)\<close>: the remaining components default to zero.\<close>

definition time_of_hour :: "nat \<Rightarrow> time" where
  "time_of_hour h = (h, 0, 0, 0)"

text \<open>\<open>models/appointments.py\<close>: \<open>class AppointmentStatus(str, PyEnum)\<close>.\<close>

datatype AppointmentStatus = SCHEDULED | COMPLETED | CANCELLED | PENDING

fun status_value :: "AppointmentStatus \<Rightarrow> string" where
  "status_value SCHEDULED = ''SCHEDULED''"
| "status_value COMPLETED = ''COMPLETED''"
| "status_value CANCELLED = ''CANCELLED''"
| "status_value PENDING = ''PENDING''"

text \<open>
  \<open>schemas/appointments.py\<close>: a validated \<open>AppointmentRequest\<close>.
  \<open>models/appointments.py\<close>: a row of the table \<open>appointments\<close> carries the same ten
  columns, the generated \<open>appointment_id\<close> and the \<open>status\<close> column, which is a
  \<open>String(20)\<close> and therefore a string here. The surrogate key \<open>id\<close> and
  \<open>created_at\<close> are assigned by the database server and read by no operation; they are
  left out.
\<close>

record AppointmentRequest =
  doctor_id :: string
  patient_id :: string
  facility_id :: string
  doctor_name :: string
  patient_name :: string
  appointment_date :: date
  appointment_start_time :: time
  appointment_end_time :: time
  purpose_of_visit :: string
  description :: "string option"

record Appointment = AppointmentRequest +
  appointment_id :: string
  status :: string

record TimeSlot =
  start_time :: time
  end_time :: time

text \<open>
  The store is the table as a list of rows in insertion order. \<open>HTTPException\<close> carries
  its status code and detail; a request that fails schema validation is answered with the
  list of (field, message) errors. A returned row that fails the validation of the response
  schema raises \<open>ResponseValidationError\<close>, which the framework answers with status 500.
\<close>

type_synonym db = "Appointment list"

datatype error =
    HTTPException nat string
  | RequestValidationError "(string \<times> string) list"
  | ResponseValidationError "(string \<times> string) list"

section \<open>Python string and integer helpers\<close>

text \<open>
  \<open>int(s)\<close> on an ASCII string: optional surrounding whitespace, an optional sign, then
  decimal digits in which single underscores may separate digits. \<open>None\<close> stands for
  \<open>ValueError\<close>.
\<close>

definition is_space :: "char \<Rightarrow> bool" where
  "is_space c = (c \<in> set [CHR 0x09, CHR 0x0A, CHR 0x0B, CHR 0x0C, CHR 0x0D, CHR '' ''])"

definition is_digit :: "char \<Rightarrow> bool" where
  "is_digit c = (CHR ''0'' \<le> c \<and> c \<le> CHR ''9'')"

definition digit_val :: "char \<Rightarrow> nat" where
  "digit_val c = of_char c - 48"

fun parse_digits :: "nat \<Rightarrow> string \<Rightarrow> nat option" where
  "parse_digits acc [] = Some acc"
| "parse_digits acc (c # cs) =
     (if is_digit c then parse_digits (10 * acc + digit_val c) cs
      else if c = CHR ''_'' then
        (case cs of
           [] \<Rightarrow> None
         | d # ds \<Rightarrow> if is_digit d then parse_digits (10 * acc + digit_val d) ds else None)
      else None)"

definition py_int :: "string \<Rightarrow> int option" where
  "py_int s =
     (let t = dropWhile is_space s;
          neg = (case t of [] \<Rightarrow> False | c # _ \<Rightarrow> c = CHR ''-'');
          u = (case t of [] \<Rightarrow> [] | c # r \<Rightarrow> if c = CHR ''-'' \<or> c = CHR ''+'' then r else t);
          body = rev (dropWhile is_space (rev u))
      in case body of
           [] \<Rightarrow> None
         | c # cs \<Rightarrow>
             if is_digit c
             then map_option (\<lambda>n. if neg then - int n else int n) (parse_digits (digit_val c) cs)
             else None)"

text \<open>\<open>str(n)\<close> for an integer and \<open>s.zfill(width)\<close>.\<close>

definition digit_char :: "nat \<Rightarrow> char" where
  "digit_char d = ''0123456789'' ! d"

fun digits_of :: "nat \<Rightarrow> string" where
  "digits_of n =
     (if n < 10 then [digit_char n]
      else digits_of (n div 10) @ [digit_char (n mod 10)])"

declare digits_of.simps [simp del]

definition py_str :: "int \<Rightarrow> string" where
  "py_str i = (if i < 0 then CHR ''-'' # digits_of (nat (- i)) else digits_of (nat i))"

definition zfill :: "nat \<Rightarrow> string \<Rightarrow> string" where
  "zfill width s =
     (if width \<le> length s then s
      else
        (case s of
           [] \<Rightarrow> replicate width CHR ''0''
         | c # r \<Rightarrow>
             if c = CHR ''+'' \<or> c = CHR ''-''
             then c # replicate (width - length s) CHR ''0'' @ r
             else replicate (width - length s) CHR ''0'' @ s))"

section \<open>Data access operations (crud.py)\<close>

text \<open>
  \<open>db.query(Appointment).order_by(Appointment.appointment_id.desc()).first()\<close>: the row
  with the greatest \<open>appointment_id\<close> in the order of strings (character by character),
  \<open>None\<close> on an empty table.
\<close>

definition last_appointment :: "db \<Rightarrow> Appointment option" where
  "last_appointment rows =
     (case rows of
        [] \<Rightarrow> None
      | a # as \<Rightarrow>
          Some (fold (\<lambda>b m. if appointment_id m < appointment_id b then b else m) as a))"

text \<open>
  Lines 31 to 36 of \<open>create_appointment\<close>: \<open>None\<close> when \<open>int\<close> raises
  \<open>ValueError\<close>.
\<close>

definition next_id :: "db \<Rightarrow> int option" where
  "next_id rows =
     (case last_appointment rows of
        None \<Rightarrow> Some 1
      | Some l \<Rightarrow> map_option (\<lambda>last_id. last_id + 1) (py_int (drop 3 (appointment_id l))))"

text \<open>The filter of the conflict query, lines 41 to 51.\<close>

definition conflicting :: "AppointmentRequest \<Rightarrow> Appointment \<Rightarrow> bool" where
  "conflicting req a =
     (doctor_id a = doctor_id req \<and>
      appointment_date a = appointment_date req \<and>
      status a \<noteq> status_value CANCELLED \<and>
      appointment_start_time a < appointment_end_time req \<and>
      appointment_end_time a > appointment_start_time req)"

definition conflict_error :: error where
  "conflict_error =
     HTTPException 400 ''Doctor already has an appointment scheduled during this time''"

definition internal_error :: error where
  "internal_error = HTTPException 500 ''Internal server error''"

text \<open>
  What the database (PostgreSQL, as configured in \<open>config.py\<close>) does with a string
  that is written to a column. The driver refuses a string that contains the NUL
  character. A \<open>String(n)\<close> column is \<open>VARCHAR(n)\<close>: a longer string is an error,
  unless all characters beyond the first \<open>n\<close> are spaces, in which case the string is
  cut to \<open>n\<close> characters. \<open>None\<close> stands for the exception that either case raises.
\<close>

definition pg_text :: "string \<Rightarrow> string option" where
  "pg_text s = (if CHR 0x00 \<in> set s then None else Some s)"

definition pg_varchar :: "nat \<Rightarrow> string \<Rightarrow> string option" where
  "pg_varchar n s =
     (if CHR 0x00 \<in> set s then None
      else if length s \<le> n then Some s
      else if list_all (\<lambda>c. c = CHR '' '') (drop n s) then Some (take n s)
      else None)"

text \<open>
  The row as the table holds it after the insertion, with the column types of
  \<open>models/appointments.py\<close>; \<open>None\<close> when a column refuses its value.
\<close>

definition stored_form :: "Appointment \<Rightarrow> Appointment option" where
  "stored_form a =
     Option.bind (pg_varchar 50 (appointment_id a)) (\<lambda>aid.
     Option.bind (pg_varchar 50 (doctor_id a)) (\<lambda>did.
     Option.bind (pg_varchar 50 (patient_id a)) (\<lambda>pid.
     Option.bind (pg_varchar 50 (facility_id a)) (\<lambda>fid.
     Option.bind (pg_varchar 100 (doctor_name a)) (\<lambda>dname.
     Option.bind (pg_varchar 100 (patient_name a)) (\<lambda>pname.
     Option.bind (pg_varchar 255 (purpose_of_visit a)) (\<lambda>purpose.
     Option.bind (case description a of
                    None \<Rightarrow> Some None
                  | Some d \<Rightarrow> map_option Some (pg_text d)) (\<lambda>descr.
     Option.bind (pg_varchar 20 (status a)) (\<lambda>st.
       Some \<lparr> doctor_id = did,
              patient_id = pid,
              facility_id = fid,
              doctor_name = dname,
              patient_name = pname,
              appointment_date = appointment_date a,
              appointment_start_time = appointment_start_time a,
              appointment_end_time = appointment_end_time a,
              purpose_of_visit = purpose,
              description = descr,
              appointment_id = aid,
              status = st \<rparr>)))))))))"

text \<open>
  \<open>create_appointment\<close>. Every exception that is not an \<open>HTTPException\<close> is turned
  into the 500 response after a rollback, so the table is returned as it was. The commit
  raises when a column refuses its value, and when the id is already in the table, since
  the column \<open>appointment_id\<close> is declared \<open>unique=True\<close>. After the commit the row
  is refreshed from the table and returned.
\<close>

definition create_appointment :: "db \<Rightarrow> AppointmentRequest \<Rightarrow> (error + Appointment) \<times> db" where
  "create_appointment rows req =
     (case next_id rows of
        None \<Rightarrow> (Inl internal_error, rows)
      | Some n \<Rightarrow>
          let new_id = ''APT'' @ zfill 4 (py_str n) in
          (case find (conflicting req) rows of
             Some existing \<Rightarrow> (Inl conflict_error, rows)
           | None \<Rightarrow>
               let db_appointment =
                 \<lparr> doctor_id = doctor_id req,
                   patient_id = patient_id req,
                   facility_id = facility_id req,
                   doctor_name = doctor_name req,
                   patient_name = patient_name req,
                   appointment_date = appointment_date req,
                   appointment_start_time = appointment_start_time req,
                   appointment_end_time = appointment_end_time req,
                   purpose_of_visit = purpose_of_visit req,
                   description = description req,
                   appointment_id = new_id,
                   status = status_value SCHEDULED \<rparr>
               in (case stored_form db_appointment of
                     None \<Rightarrow> (Inl internal_error, rows)
                   | Some row \<Rightarrow>
                       if appointment_id row \<in> set (map appointment_id rows)
                       then (Inl internal_error, rows)
                       else (Inr row, rows @ [row]))))"

text \<open>\<open>get_appointment_by_id\<close>: the first row with that id, or the 404 exception.\<close>

definition not_found_error :: error where
  "not_found_error = HTTPException 404 ''Appointment not found''"

definition get_appointment_by_id :: "db \<Rightarrow> string \<Rightarrow> error + Appointment" where
  "get_appointment_by_id rows aid =
     (case find (\<lambda>a. appointment_id a = aid) rows of
        None \<Rightarrow> Inl not_found_error
      | Some appointment \<Rightarrow> Inr appointment)"

text \<open>Committing the assignment \<open>appointment.status = v\<close> on the row that was fetched.\<close>

fun set_status :: "string \<Rightarrow> string \<Rightarrow> db \<Rightarrow> db" where
  "set_status aid v [] = []"
| "set_status aid v (a # as) =
     (if appointment_id a = aid then a\<lparr>status := v\<rparr> # as else a # set_status aid v as)"

definition update_error :: error where
  "update_error = HTTPException 500 ''Error updating appointment status''"

text \<open>
  \<open>update_appointment_status\<close>. Its only handler is \<open>except Exception\<close>, and
  \<open>HTTPException\<close> is an \<open>Exception\<close>: whatever \<open>get_appointment_by_id\<close> raises is
  replaced by the 500 exception after a rollback.
\<close>

definition update_appointment_status ::
  "db \<Rightarrow> string \<Rightarrow> AppointmentStatus \<Rightarrow> (error + Appointment) \<times> db" where
  "update_appointment_status rows aid new_status =
     (case get_appointment_by_id rows aid of
        Inl e \<Rightarrow> (Inl update_error, rows)
      | Inr appointment \<Rightarrow>
          (Inr (appointment\<lparr>status := status_value new_status\<rparr>),
           set_status aid (status_value new_status) rows))"

definition get_appointments_by_patient_id :: "db \<Rightarrow> string \<Rightarrow> Appointment list" where
  "get_appointments_by_patient_id rows pid = filter (\<lambda>a. patient_id a = pid) rows"

definition get_appointments_count_by_status :: "db \<Rightarrow> AppointmentStatus \<Rightarrow> nat" where
  "get_appointments_count_by_status rows st =
     length (filter (\<lambda>a. status a = status_value st) rows)"

subsection \<open>Available slots\<close>

text \<open>The query for the booked intervals, lines 144 to 151.\<close>

definition booked_slots :: "db \<Rightarrow> string \<Rightarrow> date \<Rightarrow> (time \<times> time) list" where
  "booked_slots rows doctor day =
     map (\<lambda>a. (appointment_start_time a, appointment_end_time a))
       (filter (\<lambda>a. doctor_id a = doctor \<and> appointment_date a = day \<and>
                     status a \<noteq> status_value CANCELLED) rows)"

definition working_hours :: "TimeSlot list" where
  "working_hours =
     map (\<lambda>i. \<lparr> start_time = time_of_hour i, end_time = time_of_hour (i + 1) \<rparr>) [9..<17]"

text \<open>The inner loop with its \<open>break\<close>, and the outer loop appending to the result.\<close>

fun is_available :: "TimeSlot \<Rightarrow> (time \<times> time) list \<Rightarrow> bool" where
  "is_available slot [] = True"
| "is_available slot (booked # rest) =
     (if fst booked \<le> start_time slot \<and> start_time slot < snd booked then False
      else is_available slot rest)"

fun available_loop :: "(time \<times> time) list \<Rightarrow> TimeSlot list \<Rightarrow> TimeSlot list \<Rightarrow> TimeSlot list" where
  "available_loop booked [] available_slots = available_slots"
| "available_loop booked (slot # slots) available_slots =
     available_loop booked slots
       (if is_available slot booked then available_slots @ [slot] else available_slots)"

definition get_available_time_slots :: "db \<Rightarrow> string \<Rightarrow> date \<Rightarrow> TimeSlot list" where
  "get_available_time_slots rows doctor day =
     available_loop (booked_slots rows doctor day) working_hours []"

section \<open>Request validation (schemas/appointments.py)\<close>

text \<open>
  The body of a creation request before validation: a field is \<open>None\<close> when it is
  absent or not of the field's type. Fields are validated one by one and all errors are
  collected; the request object exists only when there is none.
\<close>

record AppointmentBody =
  body_doctor_id :: "string option"
  body_patient_id :: "string option"
  body_facility_id :: "string option"
  body_doctor_name :: "string option"
  body_patient_name :: "string option"
  body_appointment_date :: "date option"
  body_appointment_start_time :: "time option"
  body_appointment_end_time :: "time option"
  body_purpose_of_visit :: "string option"
  body_description :: "string option"

type_synonym 'a validated = "(string \<times> string) list + 'a"

definition required :: "string \<Rightarrow> 'a option \<Rightarrow> 'a validated" where
  "required name v = (case v of None \<Rightarrow> Inl [(name, ''Field required'')] | Some x \<Rightarrow> Inr x)"

definition bounded_str :: "string \<Rightarrow> nat \<Rightarrow> nat \<Rightarrow> string option \<Rightarrow> string validated" where
  "bounded_str name min_length max_length v =
     (case v of
        None \<Rightarrow> Inl [(name, ''Field required'')]
      | Some s \<Rightarrow>
          if length s < min_length then Inl [(name, ''String too short'')]
          else if max_length < length s then Inl [(name, ''String too long'')]
          else Inr s)"

text \<open>\<open>validate_appointment_date\<close>; \<open>today\<close> is what \<open>date.today()\<close> returns.\<close>

definition validate_appointment_date :: "date \<Rightarrow> date \<Rightarrow> string + date" where
  "validate_appointment_date today v =
     (if v < today then Inl ''Appointment date must be in the future or present'' else Inr v)"

text \<open>
  \<open>validate_appointment_time\<close>; the second argument is the entry of \<open>values\<close> for
  \<open>appointment_start_time\<close>, \<open>None\<close> when the key is not in the dictionary.
\<close>

definition validate_appointment_time :: "time \<Rightarrow> time option \<Rightarrow> string + time" where
  "validate_appointment_time v values_start =
     (case values_start of
        None \<Rightarrow> Inr v
      | Some start \<Rightarrow> if v \<le> start then Inl ''End time must be after start time'' else Inr v)"

definition with_validator :: "string \<Rightarrow> 'a validated \<Rightarrow> ('a \<Rightarrow> string + 'a) \<Rightarrow> 'a validated" where
  "with_validator name field check =
     (case field of
        Inl es \<Rightarrow> Inl es
      | Inr v \<Rightarrow> (case check v of Inl msg \<Rightarrow> Inl [(name, msg)] | Inr w \<Rightarrow> Inr w))"

definition both :: "'a validated \<Rightarrow> 'b validated \<Rightarrow> ('a \<times> 'b) validated" where
  "both x y =
     (case x of
        Inl ex \<Rightarrow> (case y of Inl ey \<Rightarrow> Inl (ex @ ey) | Inr b \<Rightarrow> Inl ex)
      | Inr a \<Rightarrow> (case y of Inl ey \<Rightarrow> Inl ey | Inr b \<Rightarrow> Inr (a, b)))"

definition description_field :: "string option \<Rightarrow> string option validated" where
  "description_field v =
     (case v of
        None \<Rightarrow> Inr None
      | Some s \<Rightarrow> if 500 < length s then Inl [(''description'', ''String too long'')] else Inr (Some s))"

definition parse_request :: "date \<Rightarrow> AppointmentBody \<Rightarrow> error + AppointmentRequest" where
  "parse_request today b =
     (let start_field = required ''appointment_start_time'' (body_appointment_start_time b);
          values_start = (case start_field of Inl es \<Rightarrow> None | Inr st \<Rightarrow> Some st)
      in
      case
        both (required ''doctor_id'' (body_doctor_id b))
       (both (required ''patient_id'' (body_patient_id b))
       (both (required ''facility_id'' (body_facility_id b))
       (both (bounded_str ''doctor_name'' 2 100 (body_doctor_name b))
       (both (bounded_str ''patient_name'' 2 100 (body_patient_name b))
       (both (with_validator ''appointment_date''
                (required ''appointment_date'' (body_appointment_date b))
                (validate_appointment_date today))
       (both start_field
       (both (with_validator ''appointment_end_time''
                (required ''appointment_end_time'' (body_appointment_end_time b))
                (\<lambda>v. validate_appointment_time v values_start))
       (both (bounded_str ''purpose_of_visit'' 2 255 (body_purpose_of_visit b))
             (description_field (body_description b))))))))))
      of
        Inl es \<Rightarrow> Inl (RequestValidationError es)
      | Inr (d, p, f, dn, pn, day, st, en, pu, de) \<Rightarrow>
          Inr \<lparr> doctor_id = d, patient_id = p, facility_id = f, doctor_name = dn,
                patient_name = pn, appointment_date = day, appointment_start_time = st,
                appointment_end_time = en, purpose_of_visit = pu, description = de \<rparr>)"

text \<open>
  \<open>AppointmentStatusUpdateRequest\<close>: the field \<open>status\<close> must be the value of a member
  of the enumeration.
\<close>

definition parse_status :: "string \<Rightarrow> error + AppointmentStatus" where
  "parse_status s =
     (case find (\<lambda>st. status_value st = s) [SCHEDULED, COMPLETED, CANCELLED, PENDING] of
        None \<Rightarrow> Inl (RequestValidationError [(''status'', ''Input should be a status'')])
      | Some st \<Rightarrow> Inr st)"

section \<open>Endpoints (routers/appointments.py)\<close>

text \<open>
  An endpoint validates the body, calls the data access operation and validates what that
  returns against its \<open>response_model\<close>. The caller has been resolved by the
  authentication service before the handler runs.

  Both writing endpoints declare \<open>response_model=AppointmentResponse\<close>. That class
  is a subclass of \<open>AppointmentRequest\<close>: it declares every field again without length
  bounds, and it inherits the two validators, which therefore run on the returned row with
  the current date of the moment. The table has been committed by then. A request is
  handled within one day: both validations of a creation see the same current date.
\<close>

definition validate_response :: "date \<Rightarrow> Appointment \<Rightarrow> error + Appointment" where
  "validate_response today a =
     (case
        both (with_validator ''appointment_date'' (Inr (appointment_date a))
                (validate_appointment_date today))
             (with_validator ''appointment_end_time'' (Inr (appointment_end_time a))
                (\<lambda>v. validate_appointment_time v (Some (appointment_start_time a))))
      of
        Inl es \<Rightarrow> Inl (ResponseValidationError es)
      | Inr v \<Rightarrow> Inr a)"

definition respond :: "date \<Rightarrow> (error + Appointment) \<times> db \<Rightarrow> (error + Appointment) \<times> db" where
  "respond today r =
     (case fst r of
        Inl e \<Rightarrow> r
      | Inr a \<Rightarrow> (validate_response today a, snd r))"

definition create_new_appointment ::
  "date \<Rightarrow> db \<Rightarrow> AppointmentBody \<Rightarrow> (error + Appointment) \<times> db" where
  "create_new_appointment today rows b =
     (case parse_request today b of
        Inl e \<Rightarrow> (Inl e, rows)
      | Inr appointment \<Rightarrow> respond today (create_appointment rows appointment))"

definition update_status ::
  "date \<Rightarrow> db \<Rightarrow> string \<Rightarrow> string \<Rightarrow> (error + Appointment) \<times> db" where
  "update_status today rows aid body_status =
     (case parse_status body_status of
        Inl e \<Rightarrow> (Inl e, rows)
      | Inr st \<Rightarrow> respond today (update_appointment_status rows aid st))"

text \<open>
  Modelled from the spec: the class \<open>User\<close> of \<open>app.auth_utils\<close>, which is not among the
  sources. The authentication service supplies the caller as an identity and a role; the
  handlers read \<open>current_user.username\<close> and \<open>current_user.role\<close>.
\<close>

record User =
  username :: string
  role :: string

definition forbidden_error :: error where
  "forbidden_error = HTTPException 403 ''Patients can only view their own appointments''"

definition get_patient_appointments :: "db \<Rightarrow> User \<Rightarrow> string \<Rightarrow> error + Appointment list" where
  "get_patient_appointments rows current_user pid =
     (if role current_user = ''PATIENT'' \<and> username current_user \<noteq> pid
      then Inl forbidden_error
      else Inr (get_appointments_by_patient_id rows pid))"

text \<open>
  The states of the table that the two writing endpoints can produce from the empty table.
\<close>

inductive reachable :: "db \<Rightarrow> bool" where
  initial: "reachable []"
| created: "reachable rows \<Longrightarrow> reachable (snd (create_new_appointment today rows b))"
| updated: "reachable rows \<Longrightarrow> reachable (snd (update_status today rows aid body_status))"

section \<open>Auxiliary notions for the statements\<close>

text \<open>
  The format of a generated identifier: \<open>APT\<close> followed by a non-empty run of decimal
  digits.
\<close>

definition well_formed_id :: "string \<Rightarrow> bool" where
  "well_formed_id i = (take 3 i = ''APT'' \<and> drop 3 i \<noteq> [] \<and> list_all is_digit (drop 3 i))"

definition well_formed_ids :: "db \<Rightarrow> bool" where
  "well_formed_ids rows = list_all (\<lambda>a. well_formed_id (appointment_id a)) rows"

text \<open>
  A request whose text fields the table stores as they are: none contains NUL and each is
  within the width of its column.
\<close>

definition fits :: "nat \<Rightarrow> string \<Rightarrow> bool" where
  "fits n s = (CHR 0x00 \<notin> set s \<and> length s \<le> n)"

definition fits_columns :: "AppointmentRequest \<Rightarrow> bool" where
  "fits_columns req =
     (fits 50 (doctor_id req) \<and> fits 50 (patient_id req) \<and> fits 50 (facility_id req) \<and>
      fits 100 (doctor_name req) \<and> fits 100 (patient_name req) \<and>
      fits 255 (purpose_of_visit req) \<and>
      (case description req of None \<Rightarrow> True | Some d \<Rightarrow> CHR 0x00 \<notin> set d))"

definition known_status :: "string \<Rightarrow> bool" where
  "known_status s = (s \<in> {''SCHEDULED'', ''COMPLETED'', ''CANCELLED'', ''PENDING''})"

definition errors_of :: "'a validated \<Rightarrow> (string \<times> string) list" where
  "errors_of x = (case x of Inl es \<Rightarrow> es | Inr v \<Rightarrow> [])"

text \<open>The eight slots of the working day, written out.\<close>

definition hourly_slots :: "TimeSlot list" where
  "hourly_slots =
     [\<lparr> start_time = (9, 0, 0, 0), end_time = (10, 0, 0, 0) \<rparr>,
      \<lparr> start_time = (10, 0, 0, 0), end_time = (11, 0, 0, 0) \<rparr>,
      \<lparr> start_time = (11, 0, 0, 0), end_time = (12, 0, 0, 0) \<rparr>,
      \<lparr> start_time = (12, 0, 0, 0), end_time = (13, 0, 0, 0) \<rparr>,
      \<lparr> start_time = (13, 0, 0, 0), end_time = (14, 0, 0, 0) \<rparr>,
      \<lparr> start_time = (14, 0, 0, 0), end_time = (15, 0, 0, 0) \<rparr>,
      \<lparr> start_time = (15, 0, 0, 0), end_time = (16, 0, 0, 0) \<rparr>,
      \<lparr> start_time = (16, 0, 0, 0), end_time = (17, 0, 0, 0) \<rparr>]"

text \<open>Sample data for the concrete instances: one doctor, one patient, one day.\<close>

definition example_day :: date where
  "example_day = (2026, 11, 3)"

definition example_request :: "date \<Rightarrow> time \<Rightarrow> time \<Rightarrow> AppointmentRequest" where
  "example_request day t1 t2 =
     \<lparr> doctor_id = ''DOC0001'', patient_id = ''PAT0001'', facility_id = ''FAC0001'',
       doctor_name = ''Dr. John Smith'', patient_name = ''Jane Doe'',
       appointment_date = day, appointment_start_time = t1, appointment_end_time = t2,
       purpose_of_visit = ''Regular checkup'', description = None \<rparr>"

definition example_row :: "string \<Rightarrow> date \<Rightarrow> time \<Rightarrow> time \<Rightarrow> string \<Rightarrow> Appointment" where
  "example_row aid day t1 t2 st =
     \<lparr> doctor_id = ''DOC0001'', patient_id = ''PAT0001'', facility_id = ''FAC0001'',
       doctor_name = ''Dr. John Smith'', patient_name = ''Jane Doe'',
       appointment_date = day, appointment_start_time = t1, appointment_end_time = t2,
       purpose_of_visit = ''Regular checkup'', description = None,
       appointment_id = aid, status = st \<rparr>"

definition example_body :: "date \<Rightarrow> time \<Rightarrow> time \<Rightarrow> AppointmentBody" where
  "example_body day t1 t2 =
     \<lparr> body_doctor_id = Some ''DOC0001'', body_patient_id = Some ''PAT0001'',
       body_facility_id = Some ''FAC0001'', body_doctor_name = Some ''Dr. John Smith'',
       body_patient_name = Some ''Jane Doe'', body_appointment_date = Some day,
       body_appointment_start_time = Some t1, body_appointment_end_time = Some t2,
       body_purpose_of_visit = Some ''Regular checkup'', body_description = None \<rparr>"

definition example_table :: db where
  "example_table =
     [example_row ''APT0001'' example_day (9, 0, 0, 0) (10, 0, 0, 0) ''SCHEDULED'',
      example_row ''APT0002'' example_day (11, 0, 0, 0) (12, 0, 0, 0) ''PENDING'',
      example_row ''APT0003'' example_day (10, 0, 0, 0) (11, 0, 0, 0) ''CANCELLED'']"

text \<open>
  A table with one cancelled appointment, and a request for the same doctor and hour whose
  facility id is 51 characters long.
\<close>

definition cancelled_table :: db where
  "cancelled_table =
     [example_row ''APT0001'' example_day (9, 0, 0, 0) (10, 0, 0, 0) ''CANCELLED'']"

definition wide_request :: AppointmentRequest where
  "wide_request =
     (example_request example_day (9, 0, 0, 0) (10, 0, 0, 0))
       \<lparr>facility_id := replicate 51 CHR ''F''\<rparr>"

text \<open>A table in which a five-digit identifier has been generated.\<close>

definition five_digit_table :: db where
  "five_digit_table =
     [example_row ''APT9999'' example_day (9, 0, 0, 0) (10, 0, 0, 0) ''SCHEDULED'',
      example_row ''APT10000'' example_day (10, 0, 0, 0) (11, 0, 0, 0) ''SCHEDULED'']"

text \<open>
  The identifier that the generator forms from the number \<open>k\<close>, the number that a run
  of digits denotes, and the row that creation stores for a request under a given
  identifier.
\<close>

definition generated_id :: "nat \<Rightarrow> string" where
  "generated_id k = ''APT'' @ zfill 4 (py_str (int k))"

definition decimal_value :: "string \<Rightarrow> nat" where
  "decimal_value ds = foldl (\<lambda>acc c. 10 * acc + digit_val c) 0 ds"

definition stored_row :: "AppointmentRequest \<Rightarrow> string \<Rightarrow> Appointment" where
  "stored_row req aid =
     \<lparr> doctor_id = doctor_id req,
       patient_id = patient_id req,
       facility_id = facility_id req,
       doctor_name = doctor_name req,
       patient_name = patient_name req,
       appointment_date = appointment_date req,
       appointment_start_time = appointment_start_time req,
       appointment_end_time = appointment_end_time req,
       purpose_of_visit = purpose_of_visit req,
       description = description req,
       appointment_id = aid,
       status = status_value SCHEDULED \<rparr>"

text \<open>
  Sequential creations from the empty table: the request number \<open>n\<close> books the
  microsecond from \<open>n\<close> to \<open>n + 1\<close> after midnight, so no two of them overlap.
\<close>

fun busy_table :: "nat \<Rightarrow> db" where
  "busy_table 0 = []"
| "busy_table (Suc n) =
     snd (create_new_appointment example_day (busy_table n)
            (example_body example_day (0, 0, 0, n) (0, 0, 0, Suc n)))"

section \<open>Parsing identifiers\<close>

lemma parse_digits_all_digits:
  "list_all is_digit ds \<Longrightarrow> \<exists>n. parse_digits acc ds = Some n"
  by (induction ds arbitrary: acc) simp_all

lemma digit_not_space: "is_digit c \<Longrightarrow> \<not> is_space c"
  by (auto simp: is_digit_def is_space_def)

lemma digit_not_sign: "is_digit c \<Longrightarrow> c \<noteq> CHR ''-'' \<and> c \<noteq> CHR ''+''"
  by (auto simp: is_digit_def)

lemma dropWhile_rev_digits:
  assumes "ds \<noteq> []" "list_all is_digit ds"
  shows "rev (dropWhile is_space (rev ds)) = ds"
proof -
  from assms have "\<not> is_space (last ds)"
    by (simp add: digit_not_space list_all_iff)
  with assms(1) have "dropWhile is_space (rev ds) = rev ds"
    by (cases ds rule: rev_cases) simp_all
  then show ?thesis by simp
qed

lemma py_int_digits:
  assumes "ds \<noteq> []" "list_all is_digit ds"
  shows "\<exists>n. py_int ds = Some (int n)"
proof -
  from assms obtain c cs where ds: "ds = c # cs" and c: "is_digit c" and cs: "list_all is_digit cs"
    by (cases ds) auto
  from parse_digits_all_digits [OF cs] obtain n where n: "parse_digits (digit_val c) cs = Some n"
    by blast
  have t: "dropWhile is_space ds = ds"
    using c ds by (simp add: digit_not_space)
  have r: "rev (dropWhile is_space (rev ds)) = ds"
    by (rule dropWhile_rev_digits [OF assms])
  show ?thesis
    using c n digit_not_sign [OF c] r
    by (simp add: py_int_def t Let_def) (simp add: ds)
qed

lemma fold_max_in:
  "fold (\<lambda>b m. if appointment_id m < appointment_id b then b else m) as a \<in> set (a # as)"
  by (induction as arbitrary: a) auto

lemma last_appointment_in:
  "last_appointment rows = Some l \<Longrightarrow> l \<in> set rows"
  using fold_max_in by (auto simp: last_appointment_def split: list.splits)

lemma next_id_well_formed:
  assumes "well_formed_ids rows"
  shows "\<exists>n. next_id rows = Some (int n + 1)"
proof (cases "last_appointment rows")
  case None
  then show ?thesis by (simp add: next_id_def)
next
  case (Some l)
  with assms have "well_formed_id (appointment_id l)"
    by (auto simp: well_formed_ids_def list_all_iff dest: last_appointment_in)
  then have "drop 3 (appointment_id l) \<noteq> []" "list_all is_digit (drop 3 (appointment_id l))"
    unfolding well_formed_id_def by blast+
  from py_int_digits [OF this] obtain n where "py_int (drop 3 (appointment_id l)) = Some (int n)"
    by blast
  with Some show ?thesis by (simp add: next_id_def)
qed

section \<open>Storing rows\<close>

lemma pg_varchar_fits: "fits n s \<Longrightarrow> pg_varchar n s = Some s"
  by (simp add: fits_def pg_varchar_def)

lemma pg_varchar_status: "pg_varchar 20 (status_value st) = Some (status_value st)"
  by (cases st) (simp_all add: pg_varchar_def)

lemma stored_form_fields:
  assumes "stored_form a = Some r"
  shows "pg_varchar 50 (appointment_id a) = Some (appointment_id r)"
    and "pg_varchar 20 (status a) = Some (status r)"
    and "appointment_date r = appointment_date a"
    and "appointment_start_time r = appointment_start_time a"
    and "appointment_end_time r = appointment_end_time a"
  using assms by (auto simp: stored_form_def split: Option.bind_splits)

lemma stored_form_stored_row:
  assumes "fits_columns req" "fits 50 aid"
  shows "stored_form (stored_row req aid) = Some (stored_row req aid)"
proof -
  have d: "(case description req of None \<Rightarrow> Some None | Some d \<Rightarrow> map_option Some (pg_text d)) =
           Some (description req)"
    using assms(1) by (auto simp: fits_columns_def pg_text_def split: option.splits)
  show ?thesis
    using assms d
    by (simp add: stored_form_def stored_row_def fits_columns_def pg_varchar_fits
        pg_varchar_status [of SCHEDULED, simplified])
qed

lemma create_appointment_unfold:
  "create_appointment rows req =
     (case next_id rows of
        None \<Rightarrow> (Inl internal_error, rows)
      | Some n \<Rightarrow>
          (case find (conflicting req) rows of
             Some existing \<Rightarrow> (Inl conflict_error, rows)
           | None \<Rightarrow>
               (case stored_form (stored_row req (''APT'' @ zfill 4 (py_str n))) of
                  None \<Rightarrow> (Inl internal_error, rows)
                | Some row \<Rightarrow>
                    if appointment_id row \<in> set (map appointment_id rows)
                    then (Inl internal_error, rows)
                    else (Inr row, rows @ [row]))))"
  by (simp add: create_appointment_def stored_row_def Let_def split: option.splits)

lemma create_cases:
  "(\<exists>e. create_appointment rows req = (Inl e, rows)) \<or>
   (\<exists>n row. next_id rows = Some n \<and>
      pg_varchar 50 (''APT'' @ zfill 4 (py_str n)) = Some (appointment_id row) \<and>
      status row = ''SCHEDULED'' \<and>
      create_appointment rows req = (Inr row, rows @ [row]))"
proof (cases "\<exists>e. create_appointment rows req = (Inl e, rows)")
  case True
  then show ?thesis by blast
next
  case False
  then obtain n row where n: "next_id rows = Some n"
    and row: "stored_form (stored_row req (''APT'' @ zfill 4 (py_str n))) = Some row"
    and res: "create_appointment rows req = (Inr row, rows @ [row])"
    by (auto simp: create_appointment_unfold split: option.splits if_splits)
  from stored_form_fields(1,2) [OF row]
  have "pg_varchar 50 (''APT'' @ zfill 4 (py_str n)) = Some (appointment_id row)"
    and "status row = ''SCHEDULED''"
    using pg_varchar_status [of SCHEDULED] by (simp_all add: stored_row_def)
  with n res show ?thesis by blast
qed

lemma fits_example: "fits_columns (example_request day t1 t2)"
  by (simp add: fits_columns_def fits_def example_request_def)

lemma stored_example:
  "stored_row (example_request day t1 t2) aid = example_row aid day t1 t2 ''SCHEDULED''"
  by (simp add: stored_row_def example_request_def example_row_def)

lemma example_row_id: "appointment_id (example_row aid day t1 t2 st) = aid"
  by (simp add: example_row_def)

lemma stored_form_example:
  assumes "fits 50 aid"
  shows "stored_form (example_row aid day t1 t2 ''SCHEDULED'') =
         Some (example_row aid day t1 t2 ''SCHEDULED'')"
  using stored_form_stored_row [OF fits_example assms, of day t1 t2]
  by (simp only: stored_example)

section \<open>Conflict detection on creation\<close>

lemma find_conflicting_iff:
  "(find (conflicting req) rows = None) = (\<not> (\<exists>a\<in>set rows. conflicting req a))"
  by (auto simp: find_None_iff)

lemma conflict_not_internal: "conflict_error \<noteq> internal_error"
  by (simp add: conflict_error_def internal_error_def)

lemma create_error_unchanged:
  "fst (create_appointment rows req) = Inl e \<Longrightarrow> snd (create_appointment rows req) = rows"
  by (auto simp: create_appointment_def Let_def split: option.splits if_splits)

lemma conflict_error_iff:
  assumes "well_formed_ids rows"
  shows "(fst (create_appointment rows req) = Inl conflict_error) =
         (\<exists>a\<in>set rows. conflicting req a)"
proof -
  from next_id_well_formed [OF assms] obtain n where n: "next_id rows = Some (int n + 1)"
    by blast
  have "(fst (create_appointment rows req) = Inl conflict_error) =
        (find (conflicting req) rows \<noteq> None)"
    using conflict_not_internal
    by (auto simp: create_appointment_unfold n split: option.splits)
  also have "\<dots> = (\<exists>a\<in>set rows. conflicting req a)"
    by (simp add: find_conflicting_iff)
  finally show ?thesis .
qed

section \<open>Available slots\<close>

lemma working_hours_eq: "working_hours = hourly_slots"
  by (simp add: working_hours_def hourly_slots_def time_of_hour_def upt_rec)

lemma is_available_iff:
  "is_available slot booked =
     (\<not> (\<exists>b\<in>set booked. fst b \<le> start_time slot \<and> start_time slot < snd b))"
  by (induction booked) auto

lemma available_loop_filter:
  "available_loop booked slots acc = acc @ filter (\<lambda>slot. is_available slot booked) slots"
  by (induction slots arbitrary: acc) simp_all

text \<open>
  Claim C2. For every doctor and date the slot computation returns the eight hourly slots
  from 09:00 to 17:00, in order, without those whose start time lies in the interval from
  start (included) to end (excluded) of some appointment of that doctor on that date whose
  status is not CANCELLED.
\<close>

theorem available_slots_characterisation:
  "get_available_time_slots rows doctor day =
     filter
       (\<lambda>slot. \<not> (\<exists>a\<in>set rows.
            doctor_id a = doctor \<and> appointment_date a = day \<and> status a \<noteq> ''CANCELLED'' \<and>
            appointment_start_time a \<le> start_time slot \<and>
            start_time slot < appointment_end_time a))
       hourly_slots"
proof -
  have "is_available slot (booked_slots rows doctor day) =
        (\<not> (\<exists>a\<in>set rows.
            doctor_id a = doctor \<and> appointment_date a = day \<and> status a \<noteq> ''CANCELLED'' \<and>
            appointment_start_time a \<le> start_time slot \<and>
            start_time slot < appointment_end_time a))" for slot
    by (auto simp: is_available_iff booked_slots_def)
  then show ?thesis
    by (simp add: get_available_time_slots_def available_loop_filter working_hours_eq)
qed

text \<open>
  With the single booking 09:00 to 10:00 the seven later slots remain. A booking from
  09:30 to 10:30 leaves the 09:00 slot on offer and removes the 10:00 slot. A cancelled
  booking removes nothing.
\<close>

theorem available_slots_witness:
  "get_available_time_slots
      [example_row ''APT0001'' example_day (9, 0, 0, 0) (10, 0, 0, 0) ''SCHEDULED'']
      ''DOC0001'' example_day = tl hourly_slots \<and>
   get_available_time_slots
      [example_row ''APT0001'' example_day (9, 30, 0, 0) (10, 30, 0, 0) ''SCHEDULED'']
      ''DOC0001'' example_day = hd hourly_slots # tl (tl hourly_slots) \<and>
   get_available_time_slots
      [example_row ''APT0001'' example_day (9, 0, 0, 0) (10, 0, 0, 0) ''CANCELLED'']
      ''DOC0001'' example_day = hourly_slots"
  unfolding available_slots_characterisation
  by (simp add: example_row_def hourly_slots_def)

section \<open>Status update\<close>

lemma update_not_found_differs: "update_error \<noteq> not_found_error"
  by (simp add: update_error_def not_found_error_def)

lemma update_absent:
  assumes "aid \<notin> set (map appointment_id rows)"
  shows "update_appointment_status rows aid st = (Inl update_error, rows)"
proof -
  from assms have "find (\<lambda>a. appointment_id a = aid) rows = None"
    by (auto simp: find_None_iff)
  then show ?thesis
    by (simp add: update_appointment_status_def get_appointment_by_id_def)
qed

text \<open>
  Claim C4. Updating the status of an identifier that is not in the table: the lookup
  raises the 404 exception, and the update operation answers with its 500 exception
  instead. Evaluated on the empty table.
\<close>

theorem update_missing_appointment_generic_failure:
  "update_appointment_status [] ''APT0001'' COMPLETED = (Inl update_error, []) \<and>
   get_appointment_by_id [] ''APT0001'' = Inl not_found_error \<and>
   update_error = HTTPException 500 ''Error updating appointment status'' \<and>
   not_found_error = HTTPException 404 ''Appointment not found''"
  by (simp add: update_appointment_status_def get_appointment_by_id_def update_error_def
      not_found_error_def)

lemma find_first_split:
  "aid \<notin> set (map appointment_id pre) \<Longrightarrow> appointment_id a = aid \<Longrightarrow>
   find (\<lambda>a. appointment_id a = aid) (pre @ a # post) = Some a"
  by (induction pre) auto

lemma set_status_split:
  "aid \<notin> set (map appointment_id pre) \<Longrightarrow> appointment_id a = aid \<Longrightarrow>
   set_status aid v (pre @ a # post) = pre @ a\<lparr>status := v\<rparr> # post"
  by (induction pre) auto

lemma update_split:
  assumes "aid \<notin> set (map appointment_id pre)" "appointment_id a = aid"
  shows "update_appointment_status (pre @ a # post) aid st =
           (Inr (a\<lparr>status := status_value st\<rparr>), pre @ a\<lparr>status := status_value st\<rparr> # post)"
  using assms
  by (simp add: update_appointment_status_def get_appointment_by_id_def find_first_split
      set_status_split)

text \<open>
  Claim C5. When the identifier is in the table, the update succeeds for each of the four
  status values, whatever the current status and whatever the other bookings are. The
  table is split at the first row with that identifier: the result is that row with only
  its status replaced, and the new table is the old one with that row replaced in place.
\<close>

theorem update_sets_status_only:
  assumes "aid \<in> set (map appointment_id rows)"
  shows "\<exists>pre a post.
           rows = pre @ a # post \<and> aid \<notin> set (map appointment_id pre) \<and>
           appointment_id a = aid \<and>
           update_appointment_status rows aid st =
             (Inr (a\<lparr>status := status_value st\<rparr>),
              pre @ a\<lparr>status := status_value st\<rparr> # post)"
proof -
  from assms have "\<exists>a\<in>set rows. appointment_id a = aid" by auto
  then obtain pre a post where
    rows: "rows = pre @ a # post" and a: "appointment_id a = aid" and
    pre: "\<forall>b\<in>set pre. appointment_id b \<noteq> aid"
    by (auto simp: split_list_first_prop_iff)
  from pre have "aid \<notin> set (map appointment_id pre)" by auto
  with rows a update_split [OF this a] show ?thesis by blast
qed

text \<open>
  A COMPLETED appointment is set back to SCHEDULED although another SCHEDULED appointment
  of the same doctor occupies the same hour; nothing else changes.
\<close>

theorem update_sets_status_only_witness:
  "''APT0001'' \<in> set (map appointment_id
      [example_row ''APT0001'' example_day (9, 0, 0, 0) (10, 0, 0, 0) ''COMPLETED'',
       example_row ''APT0002'' example_day (9, 0, 0, 0) (10, 0, 0, 0) ''SCHEDULED'']) \<and>
   update_appointment_status
      [example_row ''APT0001'' example_day (9, 0, 0, 0) (10, 0, 0, 0) ''COMPLETED'',
       example_row ''APT0002'' example_day (9, 0, 0, 0) (10, 0, 0, 0) ''SCHEDULED'']
      ''APT0001'' SCHEDULED =
     (Inr (example_row ''APT0001'' example_day (9, 0, 0, 0) (10, 0, 0, 0) ''SCHEDULED''),
      [example_row ''APT0001'' example_day (9, 0, 0, 0) (10, 0, 0, 0) ''SCHEDULED'',
       example_row ''APT0002'' example_day (9, 0, 0, 0) (10, 0, 0, 0) ''SCHEDULED''])"
  using update_sets_status_only [of "''APT0001''"
      "[example_row ''APT0001'' example_day (9, 0, 0, 0) (10, 0, 0, 0) ''COMPLETED'',
        example_row ''APT0002'' example_day (9, 0, 0, 0) (10, 0, 0, 0) ''SCHEDULED'']" SCHEDULED]
  by (simp add: example_row_def update_appointment_status_def get_appointment_by_id_def)

section \<open>Listing by patient\<close>

text \<open>
  Claim C6. Listing the appointments of a patient is refused, with the 403 error, exactly
  when the caller has role PATIENT and a name other than the requested patient id. A
  PATIENT asking for the own id, and every caller with role ADMIN, DOCTOR or STAFF, gets
  the rows of that patient.
\<close>

theorem patient_listing_authorisation:
  "(get_patient_appointments rows u pid = Inl forbidden_error) =
     (role u = ''PATIENT'' \<and> username u \<noteq> pid) \<and>
   ((\<exists>e. get_patient_appointments rows u pid = Inl e) =
     (role u = ''PATIENT'' \<and> username u \<noteq> pid)) \<and>
   (role u = ''PATIENT'' \<and> username u = pid \<or> role u \<in> {''ADMIN'', ''DOCTOR'', ''STAFF''} \<longrightarrow>
     get_patient_appointments rows u pid = Inr (filter (\<lambda>a. patient_id a = pid) rows))"
  by (auto simp: get_patient_appointments_def get_appointments_by_patient_id_def)

text \<open>Five callers asking for the appointments of PAT0001.\<close>

theorem patient_listing_authorisation_witness:
  "get_patient_appointments example_table \<lparr>username = ''PAT0002'', role = ''PATIENT''\<rparr> ''PAT0001''
     = Inl forbidden_error \<and>
   get_patient_appointments example_table \<lparr>username = ''PAT0001'', role = ''PATIENT''\<rparr> ''PAT0001''
     = Inr example_table \<and>
   get_patient_appointments example_table \<lparr>username = ''DOC0001'', role = ''DOCTOR''\<rparr> ''PAT0001''
     = Inr example_table \<and>
   get_patient_appointments example_table \<lparr>username = ''alice'', role = ''ADMIN''\<rparr> ''PAT0001''
     = Inr example_table \<and>
   get_patient_appointments example_table \<lparr>username = ''bob'', role = ''STAFF''\<rparr> ''PAT0001''
     = Inr example_table"
  using
    patient_listing_authorisation [of example_table "\<lparr>username = ''PAT0002'', role = ''PATIENT''\<rparr>" "''PAT0001''"]
    patient_listing_authorisation [of example_table "\<lparr>username = ''PAT0001'', role = ''PATIENT''\<rparr>" "''PAT0001''"]
    patient_listing_authorisation [of example_table "\<lparr>username = ''DOC0001'', role = ''DOCTOR''\<rparr>" "''PAT0001''"]
    patient_listing_authorisation [of example_table "\<lparr>username = ''alice'', role = ''ADMIN''\<rparr>" "''PAT0001''"]
    patient_listing_authorisation [of example_table "\<lparr>username = ''bob'', role = ''STAFF''\<rparr>" "''PAT0001''"]
  by (simp add: example_table_def example_row_def)

section \<open>Request validation\<close>

lemma errors_of_both: "errors_of (both x y) = errors_of x @ errors_of y"
  by (simp add: errors_of_def both_def split: sum.splits)

lemma isl_both: "isl (both x y) = (isl x \<or> isl y)"
  by (simp add: both_def split: sum.splits)

lemma case_isl: "isl x \<Longrightarrow> (case x of Inl es \<Rightarrow> f es | Inr v \<Rightarrow> g v) = f (errors_of x)"
  by (cases x) (simp_all add: errors_of_def)

lemma required_Some: "required name (Some x) = Inr x"
  by (simp add: required_def)

lemma end_field_rejected:
  assumes "e \<le> s"
  shows "with_validator ''appointment_end_time'' (required ''appointment_end_time'' (Some e))
           (\<lambda>v. validate_appointment_time v (Some s)) =
         Inl [(''appointment_end_time'', ''End time must be after start time'')]"
  using assms by (simp add: with_validator_def required_def validate_appointment_time_def)

lemma date_field_rejected:
  assumes "d < today"
  shows "with_validator ''appointment_date'' (required ''appointment_date'' (Some d))
           (validate_appointment_date today) =
         Inl [(''appointment_date'', ''Appointment date must be in the future or present'')]"
  using assms by (simp add: with_validator_def required_def validate_appointment_date_def)

lemma parse_request_end_time:
  assumes "body_appointment_start_time b = Some s" "body_appointment_end_time b = Some e" "e \<le> s"
  shows "\<exists>es. parse_request today b = Inl (RequestValidationError es) \<and>
              (''appointment_end_time'', ''End time must be after start time'') \<in> set es"
  using assms(1,2) end_field_rejected [OF assms(3)]
  by (simp add: parse_request_def Let_def required_Some case_isl isl_both errors_of_both)
     (simp add: errors_of_def)

lemma parse_request_date:
  assumes "body_appointment_date b = Some d" "d < today"
  shows "\<exists>es. parse_request today b = Inl (RequestValidationError es) \<and>
              (''appointment_date'', ''Appointment date must be in the future or present'') \<in> set es"
  using assms(1) date_field_rejected [OF assms(2)]
  by (simp add: parse_request_def Let_def case_isl isl_both errors_of_both)
     (simp add: errors_of_def)

lemma parse_example_body:
  assumes "\<not> day < today" "t1 < t2"
  shows "parse_request today (example_body day t1 t2) = Inr (example_request day t1 t2)"
  using assms
  by (simp add: parse_request_def example_body_def example_request_def required_def
      bounded_str_def with_validator_def validate_appointment_date_def
      validate_appointment_time_def description_field_def both_def)

lemma snd_respond: "snd (respond today r) = snd r"
  by (simp add: respond_def split: sum.splits)

lemma respond_error: "respond today (Inl e, rows) = (Inl e, rows)"
  by (simp add: respond_def)

lemma validate_response_ok:
  assumes "\<not> appointment_date a < today" "appointment_start_time a < appointment_end_time a"
  shows "validate_response today a = Inr a"
  using assms
  by (simp add: validate_response_def both_def with_validator_def validate_appointment_date_def
      validate_appointment_time_def)

lemma respond_ok:
  assumes "\<not> appointment_date a < today" "appointment_start_time a < appointment_end_time a"
  shows "respond today (Inr a, rows) = (Inr a, rows)"
  using validate_response_ok [OF assms] by (simp add: respond_def)

lemma create_first:
  "create_appointment [] (example_request day t1 t2) =
     (Inr (example_row ''APT0001'' day t1 t2 ''SCHEDULED''),
      [example_row ''APT0001'' day t1 t2 ''SCHEDULED''])"
proof -
  have "zfill 4 (py_str 1) = ''0001''"
    by (simp add: zfill_def py_str_def digits_of.simps digit_char_def numeral_3_eq_3)
  then show ?thesis
    by (simp add: create_appointment_unfold next_id_def last_appointment_def stored_example
        stored_form_example fits_def)
qed

lemma create_new_rejected:
  "parse_request today b = Inl e \<Longrightarrow> create_new_appointment today rows b = (Inl e, rows)"
  by (simp add: create_new_appointment_def)


text \<open>
  Claim C7. When both times are present and the end is not after the start, the creation
  endpoint answers with a validation error that names the end time, and the table is
  unchanged. The validator itself rejects exactly when the end is at or before the start.
\<close>

theorem end_time_validation:
  "(body_appointment_start_time b = Some s \<and> body_appointment_end_time b = Some e \<and> e \<le> s \<longrightarrow>
      (\<exists>es. create_new_appointment today rows b = (Inl (RequestValidationError es), rows) \<and>
            (''appointment_end_time'', ''End time must be after start time'') \<in> set es)) \<and>
   (e \<le> s \<longrightarrow> validate_appointment_time e (Some s) = Inl ''End time must be after start time'') \<and>
   (s < e \<longrightarrow> validate_appointment_time e (Some s) = Inr e)"
proof (intro conjI impI)
  assume a: "body_appointment_start_time b = Some s \<and> body_appointment_end_time b = Some e \<and> e \<le> s"
  then obtain es where
    "parse_request today b = Inl (RequestValidationError es)"
    "(''appointment_end_time'', ''End time must be after start time'') \<in> set es"
    using parse_request_end_time [of b s e today] by blast
  then show "\<exists>es. create_new_appointment today rows b = (Inl (RequestValidationError es), rows) \<and>
            (''appointment_end_time'', ''End time must be after start time'') \<in> set es"
    using create_new_rejected by blast
next
  assume "e \<le> s"
  then show "validate_appointment_time e (Some s) = Inl ''End time must be after start time''"
    by (simp add: validate_appointment_time_def)
next
  assume "s < e"
  then show "validate_appointment_time e (Some s) = Inr e"
    by (simp add: validate_appointment_time_def)
qed

text \<open>
  An end equal to the start is rejected at the endpoint; the validator rejects an earlier
  end and accepts an end one microsecond after the start.
\<close>

theorem end_time_validation_witness:
  "create_new_appointment example_day example_table
      (example_body example_day (10, 0, 0, 0) (10, 0, 0, 0)) =
     (Inl (RequestValidationError
        [(''appointment_end_time'', ''End time must be after start time'')]), example_table) \<and>
   validate_appointment_time (9, 0, 0, 0) (Some (10, 0, 0, 0)) =
     Inl ''End time must be after start time'' \<and>
   validate_appointment_time (10, 0, 0, 1) (Some (10, 0, 0, 0)) = Inr (10, 0, 0, 1)"
  using end_time_validation [of "example_body example_day (10, 0, 0, 0) (10, 0, 0, 0)"
      "(10, 0, 0, 0)" "(10, 0, 0, 0)" example_day example_table]
    end_time_validation [of "example_body example_day (10, 0, 0, 0) (9, 0, 0, 0)"
      "(10, 0, 0, 0)" "(9, 0, 0, 0)" example_day example_table]
    end_time_validation [of "example_body example_day (10, 0, 0, 0) (10, 0, 0, 1)"
      "(10, 0, 0, 0)" "(10, 0, 0, 1)" example_day example_table]
  by (simp add: create_new_appointment_def parse_request_def example_body_def required_def
      bounded_str_def with_validator_def validate_appointment_date_def example_day_def
      validate_appointment_time_def description_field_def both_def)

lemma update_found:
  assumes "find (\<lambda>a. appointment_id a = aid) rows = Some a"
  shows "fst (update_appointment_status rows aid st) = Inr (a\<lparr>status := status_value st\<rparr>)"
  using assms by (simp add: update_appointment_status_def get_appointment_by_id_def)

text \<open>
  The date check of the request: a creation request dated before the current date is
  answered with a validation error that names the date, and the table is unchanged; the
  validator accepts the current date and every later one. The data access operation for
  the status takes no clock and updates a stored appointment whose date has passed.
\<close>

lemma date_checks:
  "(body_appointment_date b = Some d \<and> d < today \<longrightarrow>
      (\<exists>es. create_new_appointment today rows b = (Inl (RequestValidationError es), rows) \<and>
            (''appointment_date'', ''Appointment date must be in the future or present'') \<in> set es)) \<and>
   (d < today \<longrightarrow>
      validate_appointment_date today d = Inl ''Appointment date must be in the future or present'') \<and>
   (today \<le> d \<longrightarrow> validate_appointment_date today d = Inr d) \<and>
   (find (\<lambda>a. appointment_id a = aid) rows = Some a \<and> appointment_date a < today \<longrightarrow>
      fst (update_appointment_status rows aid st) = Inr (a\<lparr>status := status_value st\<rparr>))"
proof (intro conjI impI)
  assume a: "body_appointment_date b = Some d \<and> d < today"
  then obtain es where
    "parse_request today b = Inl (RequestValidationError es)"
    "(''appointment_date'', ''Appointment date must be in the future or present'') \<in> set es"
    using parse_request_date [of b d today] by blast
  then show "\<exists>es. create_new_appointment today rows b = (Inl (RequestValidationError es), rows) \<and>
      (''appointment_date'', ''Appointment date must be in the future or present'') \<in> set es"
    using create_new_rejected by blast
next
  assume "d < today"
  then show "validate_appointment_date today d =
      Inl ''Appointment date must be in the future or present''"
    by (simp add: validate_appointment_date_def)
next
  assume "today \<le> d"
  then show "validate_appointment_date today d = Inr d"
    by (simp add: validate_appointment_date_def)
next
  assume "find (\<lambda>a. appointment_id a = aid) rows = Some a \<and> appointment_date a < today"
  then show "fst (update_appointment_status rows aid st) = Inr (a\<lparr>status := status_value st\<rparr>)"
    by (simp add: update_found)
qed


text \<open>
  Claim C8. The date is validated again after creation. An appointment for 2 November 2026
  is created on that day. On 3 November its status is set to COMPLETED: the data access
  operation succeeds and the table is committed with the new status, but the endpoint
  validates the returned row against its response schema, which inherits the date check of
  the request, and answers with a response validation error (status 500).
\<close>

theorem update_response_revalidates_date:
  "reachable [example_row ''APT0001'' (2026, 11, 2) (9, 0, 0, 0) (10, 0, 0, 0) ''SCHEDULED''] \<and>
   update_appointment_status
      [example_row ''APT0001'' (2026, 11, 2) (9, 0, 0, 0) (10, 0, 0, 0) ''SCHEDULED'']
      ''APT0001'' COMPLETED =
     (Inr (example_row ''APT0001'' (2026, 11, 2) (9, 0, 0, 0) (10, 0, 0, 0) ''COMPLETED''),
      [example_row ''APT0001'' (2026, 11, 2) (9, 0, 0, 0) (10, 0, 0, 0) ''COMPLETED'']) \<and>
   update_status (2026, 11, 3)
      [example_row ''APT0001'' (2026, 11, 2) (9, 0, 0, 0) (10, 0, 0, 0) ''SCHEDULED'']
      ''APT0001'' ''COMPLETED'' =
     (Inl (ResponseValidationError
        [(''appointment_date'', ''Appointment date must be in the future or present'')]),
      [example_row ''APT0001'' (2026, 11, 2) (9, 0, 0, 0) (10, 0, 0, 0) ''COMPLETED''])"
proof -
  let ?r1 = "example_row ''APT0001'' (2026, 11, 2) (9, 0, 0, 0) (10, 0, 0, 0) ''SCHEDULED''"
  let ?r2 = "example_row ''APT0001'' (2026, 11, 2) (9, 0, 0, 0) (10, 0, 0, 0) ''COMPLETED''"
  have "snd (create_new_appointment (2026, 11, 2) []
          (example_body (2026, 11, 2) (9, 0, 0, 0) (10, 0, 0, 0))) = [?r1]"
    by (simp add: create_new_appointment_def parse_example_body create_first snd_respond)
  moreover have "reachable (snd (create_new_appointment (2026, 11, 2) []
          (example_body (2026, 11, 2) (9, 0, 0, 0) (10, 0, 0, 0))))"
    by (rule reachable.created [OF reachable.initial])
  ultimately have r: "reachable [?r1]" by (simp only:)
  have u: "update_appointment_status [?r1] ''APT0001'' COMPLETED = (Inr ?r2, [?r2])"
    by (simp add: update_appointment_status_def get_appointment_by_id_def example_row_def)
  have v: "validate_response (2026, 11, 3) ?r2 =
      Inl (ResponseValidationError
        [(''appointment_date'', ''Appointment date must be in the future or present'')])"
    by (simp add: validate_response_def both_def with_validator_def
        validate_appointment_date_def validate_appointment_time_def example_row_def)
  have "update_status (2026, 11, 3) [?r1] ''APT0001'' ''COMPLETED'' =
      (Inl (ResponseValidationError
        [(''appointment_date'', ''Appointment date must be in the future or present'')]), [?r2])"
    by (simp add: update_status_def parse_status_def respond_def u v)
  with r u show ?thesis by simp
qed

section \<open>Status values of reachable tables\<close>

lemma create_snd:
  "snd (create_appointment rows req) = rows \<or>
   (\<exists>a. snd (create_appointment rows req) = rows @ [a] \<and> status a = ''SCHEDULED'')"
  using create_cases [of rows req] by auto

lemma set_status_known:
  "list_all (\<lambda>a. known_status (status a)) rows \<Longrightarrow> known_status v \<Longrightarrow>
   list_all (\<lambda>a. known_status (status a)) (set_status aid v rows)"
  by (induction rows) auto

lemma known_status_value: "known_status (status_value st)"
  by (cases st) (simp_all add: known_status_def)

lemma update_snd_known:
  assumes "list_all (\<lambda>a. known_status (status a)) rows"
  shows "list_all (\<lambda>a. known_status (status a)) (snd (update_appointment_status rows aid st))"
  using assms
  by (simp add: update_appointment_status_def set_status_known known_status_value
      split: sum.splits)

lemma reachable_known:
  "reachable rows \<Longrightarrow> list_all (\<lambda>a. known_status (status a)) rows"
proof (induction rule: reachable.induct)
  case initial
  show ?case by simp
next
  case (created rows today b)
  show ?case
  proof (cases "parse_request today b")
    case (Inl e)
    with created.IH show ?thesis by (simp add: create_new_appointment_def)
  next
    case (Inr req)
    with created.IH create_snd [of rows req] show ?thesis
      by (auto simp: create_new_appointment_def snd_respond known_status_def)
  qed
next
  case (updated rows today aid body_status)
  then show ?case
    by (simp add: update_status_def update_snd_known snd_respond split: sum.splits)
qed

lemma counts_sum:
  "list_all (\<lambda>a. known_status (status a)) rows \<Longrightarrow>
   get_appointments_count_by_status rows SCHEDULED +
   get_appointments_count_by_status rows COMPLETED +
   get_appointments_count_by_status rows CANCELLED +
   get_appointments_count_by_status rows PENDING = length rows"
  by (induction rows) (auto simp: get_appointments_count_by_status_def known_status_def)

text \<open>
  Claim C9. In every table that the creation and status-update endpoints can produce from
  the empty table, each stored status is one of the four values of the enumeration, and
  the four counts by status add up to the number of rows.
\<close>

theorem reachable_status_invariant:
  assumes "reachable rows"
  shows "(\<forall>a\<in>set rows. status a \<in> {''SCHEDULED'', ''COMPLETED'', ''CANCELLED'', ''PENDING''}) \<and>
         get_appointments_count_by_status rows SCHEDULED +
         get_appointments_count_by_status rows COMPLETED +
         get_appointments_count_by_status rows CANCELLED +
         get_appointments_count_by_status rows PENDING = length rows"
  using reachable_known [OF assms] counts_sum [of rows]
  by (simp add: list_all_iff known_status_def)

text \<open>The table after one creation followed by a cancellation.\<close>

theorem reachable_status_invariant_witness:
  "reachable [example_row ''APT0001'' example_day (9, 0, 0, 0) (10, 0, 0, 0) ''CANCELLED''] \<and>
   get_appointments_count_by_status
     [example_row ''APT0001'' example_day (9, 0, 0, 0) (10, 0, 0, 0) ''CANCELLED''] CANCELLED = 1 \<and>
   get_appointments_count_by_status
     [example_row ''APT0001'' example_day (9, 0, 0, 0) (10, 0, 0, 0) ''CANCELLED''] SCHEDULED +
   get_appointments_count_by_status
     [example_row ''APT0001'' example_day (9, 0, 0, 0) (10, 0, 0, 0) ''CANCELLED''] COMPLETED +
   get_appointments_count_by_status
     [example_row ''APT0001'' example_day (9, 0, 0, 0) (10, 0, 0, 0) ''CANCELLED''] CANCELLED +
   get_appointments_count_by_status
     [example_row ''APT0001'' example_day (9, 0, 0, 0) (10, 0, 0, 0) ''CANCELLED''] PENDING =
   length [example_row ''APT0001'' example_day (9, 0, 0, 0) (10, 0, 0, 0) ''CANCELLED'']"
proof -
  let ?b = "example_body example_day (9, 0, 0, 0) (10, 0, 0, 0)"
  let ?r1 = "example_row ''APT0001'' example_day (9, 0, 0, 0) (10, 0, 0, 0) ''SCHEDULED''"
  let ?r2 = "example_row ''APT0001'' example_day (9, 0, 0, 0) (10, 0, 0, 0) ''CANCELLED''"
  have c: "snd (create_new_appointment example_day [] ?b) = [?r1]"
    by (simp add: create_new_appointment_def parse_example_body create_first snd_respond)
  have u: "snd (update_status example_day [?r1] ''APT0001'' ''CANCELLED'') = [?r2]"
    by (simp add: update_status_def parse_status_def update_appointment_status_def
        get_appointment_by_id_def snd_respond example_row_def)
  have "reachable (snd (create_new_appointment example_day [] ?b))"
    by (rule reachable.created [OF reachable.initial])
  then have "reachable [?r1]" by (simp only: c)
  then have "reachable (snd (update_status example_day [?r1] ''APT0001'' ''CANCELLED''))"
    by (rule reachable.updated)
  then have r: "reachable [?r2]" by (simp only: u)
  have "get_appointments_count_by_status [?r2] CANCELLED = 1"
    by (simp add: get_appointments_count_by_status_def example_row_def)
  with r reachable_status_invariant [OF r] show ?thesis by simp
qed

section \<open>Creation outside working hours\<close>

lemma available_subset: "set (get_available_time_slots rows doctor day) \<subseteq> set hourly_slots"
  by (simp add: get_available_time_slots_def available_loop_filter working_hours_eq)

text \<open>
  Claim C10. Whatever the current date, a valid request for 07:00 to 08:00 on that date is
  stored in the empty table as APT0001. Every slot that the slot computation offers, for
  any table, doctor and date, starts at 09:00 or later and ends at 17:00 or earlier, so the
  interval 07:00 to 08:00 is never among them.
\<close>

theorem creation_outside_working_hours:
  "create_new_appointment today [] (example_body today (7, 0, 0, 0) (8, 0, 0, 0)) =
     (Inr (example_row ''APT0001'' today (7, 0, 0, 0) (8, 0, 0, 0) ''SCHEDULED''),
      [example_row ''APT0001'' today (7, 0, 0, 0) (8, 0, 0, 0) ''SCHEDULED'']) \<and>
   list_all (\<lambda>slot. (9, 0, 0, 0) \<le> start_time slot \<and> end_time slot \<le> (17, 0, 0, 0))
     (get_available_time_slots rows doctor day) \<and>
   \<lparr>start_time = (7, 0, 0, 0), end_time = (8, 0, 0, 0)\<rparr>
     \<notin> set (get_available_time_slots rows doctor day)"
proof (intro conjI)
  show "create_new_appointment today [] (example_body today (7, 0, 0, 0) (8, 0, 0, 0)) =
     (Inr (example_row ''APT0001'' today (7, 0, 0, 0) (8, 0, 0, 0) ''SCHEDULED''),
      [example_row ''APT0001'' today (7, 0, 0, 0) (8, 0, 0, 0) ''SCHEDULED''])"
    by (simp add: create_new_appointment_def parse_example_body create_first respond_ok
        example_row_def)
  have h: "list_all (\<lambda>slot. (9, 0, 0, 0) \<le> start_time slot \<and> end_time slot \<le> (17, 0, 0, 0))
     hourly_slots"
    by (simp add: hourly_slots_def)
  with available_subset [of rows doctor day]
  show "list_all (\<lambda>slot. (9, 0, 0, 0) \<le> start_time slot \<and> end_time slot \<le> (17, 0, 0, 0))
     (get_available_time_slots rows doctor day)"
    unfolding list_all_iff by blast
  have "\<lparr>start_time = (7, 0, 0, 0), end_time = (8, 0, 0, 0)\<rparr> \<notin> set hourly_slots"
    by (simp add: hourly_slots_def)
  with available_subset [of rows doctor day]
  show "\<lparr>start_time = (7, 0, 0, 0), end_time = (8, 0, 0, 0)\<rparr>
     \<notin> set (get_available_time_slots rows doctor day)"
    by blast
qed

section \<open>Identifier generation\<close>

subsection \<open>Decimal digits\<close>

lemma digit_cases:
  assumes "d < (10::nat)"
  shows "d \<in> {0, 1, 2, 3, 4, 5, 6, 7, 8, 9}"
  using assms by auto

lemma digit_char_props:
  assumes "d < 10"
  shows "is_digit (digit_char d)" "digit_val (digit_char d) = d"
  using digit_cases [OF assms]
  by (auto simp: digit_char_def is_digit_def digit_val_def)

lemma digits_of_digits: "list_all is_digit (digits_of n) \<and> digits_of n \<noteq> []"
proof (induction n rule: digits_of.induct)
  case (1 n)
  show ?case
  proof (cases "n < 10")
    case True
    then show ?thesis by (simp add: digits_of.simps [of n] digit_char_props)
  next
    case False
    with 1 show ?thesis by (simp add: digits_of.simps [of n] digit_char_props)
  qed
qed

lemma parse_digits_foldl:
  "list_all is_digit xs \<Longrightarrow>
   parse_digits acc xs = Some (foldl (\<lambda>acc c. 10 * acc + digit_val c) acc xs)"
  by (induction xs arbitrary: acc) simp_all

lemma foldl_digits_of:
  "foldl (\<lambda>acc c. 10 * acc + digit_val c) acc (digits_of n) =
     acc * 10 ^ length (digits_of n) + n"
proof (induction n arbitrary: acc rule: digits_of.induct)
  case (1 n)
  show ?case
  proof (cases "n < 10")
    case True
    then show ?thesis by (simp add: digits_of.simps [of n] digit_char_props)
  next
    case False
    then have "foldl (\<lambda>acc c. 10 * acc + digit_val c) acc (digits_of n) =
        10 * (acc * 10 ^ length (digits_of (n div 10)) + n div 10) + n mod 10"
      using 1 [OF False] by (simp add: digits_of.simps [of n] digit_char_props)
    also have "\<dots> = acc * 10 ^ length (digits_of n) + n"
      using False by (simp add: digits_of.simps [of n] algebra_simps)
    finally show ?thesis .
  qed
qed

lemma foldl_zeros:
  "foldl (\<lambda>acc c. 10 * acc + digit_val c) 0 (replicate z CHR ''0'') = 0"
  by (induction z) (simp_all add: digit_val_def)

lemma py_int_decimal:
  assumes "ds \<noteq> []" "list_all is_digit ds"
  shows "py_int ds = Some (int (decimal_value ds))"
proof -
  from assms obtain c cs where ds: "ds = c # cs" and c: "is_digit c" and cs: "list_all is_digit cs"
    by (cases ds) auto
  have t: "dropWhile is_space ds = ds"
    using c ds by (simp add: digit_not_space)
  have r: "rev (dropWhile is_space (rev ds)) = ds"
    by (rule dropWhile_rev_digits [OF assms])
  have "parse_digits (digit_val c) cs = Some (decimal_value ds)"
    using cs by (simp add: parse_digits_foldl decimal_value_def ds)
  then show ?thesis
    using c digit_not_sign [OF c] r
    by (simp add: py_int_def t Let_def) (simp add: ds)
qed

lemma zfill_digits:
  assumes "ds \<noteq> []" "list_all is_digit ds"
  shows "zfill w ds = replicate (w - length ds) CHR ''0'' @ ds"
proof -
  from assms obtain c cs where ds: "ds = c # cs" and c: "is_digit c"
    by (cases ds) auto
  show ?thesis
    using digit_not_sign [OF c] by (simp add: zfill_def ds)
qed

lemma zero_digit: "is_digit CHR ''0''"
  by (simp add: is_digit_def)

lemma padded_digits:
  "zfill 4 (digits_of n) = replicate (4 - length (digits_of n)) CHR ''0'' @ digits_of n"
  "list_all is_digit (zfill 4 (digits_of n))" "zfill 4 (digits_of n) \<noteq> []"
  using digits_of_digits [of n] by (auto simp: zfill_digits list_all_iff zero_digit)

lemma padded_value: "decimal_value (zfill 4 (digits_of n)) = n"
  by (simp add: padded_digits(1) decimal_value_def foldl_zeros foldl_digits_of)

lemma drop_generated: "drop 3 (generated_id k) = zfill 4 (digits_of k)"
  by (simp add: generated_id_def py_str_def)

lemma py_int_generated: "py_int (drop 3 (generated_id k)) = Some (int k)"
  unfolding drop_generated
  using py_int_decimal [OF padded_digits(3) padded_digits(2), of k]
  by (simp only: padded_value)

lemma generated_id_inj:
  assumes "generated_id i = generated_id j"
  shows "i = j"
proof -
  from assms have "py_int (drop 3 (generated_id i)) = py_int (drop 3 (generated_id j))"
    by (rule arg_cong)
  then show ?thesis by (simp only: py_int_generated) simp
qed

lemma length_digits_of: "0 < m \<Longrightarrow> n < 10 ^ m \<Longrightarrow> length (digits_of n) \<le> m"
proof (induction m arbitrary: n)
  case 0
  then show ?case by simp
next
  case (Suc m)
  show ?case
  proof (cases "n < 10")
    case True
    then show ?thesis by (simp add: digits_of.simps [of n])
  next
    case False
    with Suc.prems have m: "0 < m" by (cases m) auto
    from Suc.prems have "n div 10 < 10 ^ m" by (simp add: less_mult_imp_div_less mult.commute)
    from Suc.IH [OF m this] False show ?thesis by (simp add: digits_of.simps [of n])
  qed
qed

lemma padded_length: "n < 10000 \<Longrightarrow> length (zfill 4 (digits_of n)) = 4"
  using length_digits_of [of 4 n] by (simp add: padded_digits(1))

lemma is_digit_code: "is_digit c \<Longrightarrow> 48 \<le> (of_char c :: nat) \<and> (of_char c :: nat) \<le> 57"
  by (simp add: is_digit_def less_eq_char_def)

lemma digit_val_less:
  "is_digit c \<Longrightarrow> is_digit d \<Longrightarrow> c < d \<Longrightarrow> digit_val c < digit_val d"
  using is_digit_code [of c] is_digit_code [of d]
  by (simp add: digit_val_def less_char_def)

lemma digit_val_bound: "is_digit c \<Longrightarrow> digit_val c \<le> 9"
  using is_digit_code [of c] unfolding digit_val_def by linarith

lemma foldl_shift:
  "foldl (\<lambda>acc c. 10 * acc + digit_val c) acc xs =
     acc * 10 ^ length xs + decimal_value xs"
proof (induction xs arbitrary: acc)
  case Nil
  show ?case by (simp add: decimal_value_def)
next
  case (Cons x xs)
  have "foldl (\<lambda>acc c. 10 * acc + digit_val c) acc (x # xs) =
        (10 * acc + digit_val x) * 10 ^ length xs + decimal_value xs"
    by (simp add: Cons.IH)
  moreover have "decimal_value (x # xs) = digit_val x * 10 ^ length xs + decimal_value xs"
    by (simp add: decimal_value_def Cons.IH [of "digit_val x"])
  ultimately show ?case by (simp add: algebra_simps)
qed

lemma decimal_value_Cons:
  "decimal_value (x # xs) = digit_val x * 10 ^ length xs + decimal_value xs"
  using foldl_shift [of "digit_val x" xs] by (simp add: decimal_value_def)

lemma decimal_value_bound:
  "list_all is_digit xs \<Longrightarrow> decimal_value xs < 10 ^ length xs"
proof (induction xs)
  case Nil
  show ?case by (simp add: decimal_value_def)
next
  case (Cons x xs)
  then have "digit_val x \<le> 9" "decimal_value xs < 10 ^ length xs"
    by (simp_all add: digit_val_bound)
  then have "digit_val x * 10 ^ length xs + decimal_value xs < 9 * 10 ^ length xs + 10 ^ length xs"
    by (meson add_le_less_mono mult_le_mono1)
  then show ?case by (simp add: decimal_value_Cons)
qed

lemma lex_less_decimal:
  assumes "length xs = length ys" "list_all is_digit xs" "list_all is_digit ys" "xs < ys"
  shows "decimal_value xs < decimal_value ys"
  using assms
proof (induction xs ys rule: list_induct2)
  case Nil
  then show ?case by simp
next
  case (Cons x xs y ys)
  from Cons.prems have dx: "is_digit x" and dy: "is_digit y"
    and dxs: "list_all is_digit xs" and dys: "list_all is_digit ys" by simp_all
  from Cons.prems(3) have "x < y \<or> x = y \<and> xs < ys" by simp
  then show ?case
  proof
    assume "x < y"
    then have "digit_val x + 1 \<le> digit_val y"
      using digit_val_less [OF dx dy] by simp
    then have "(digit_val x + 1) * 10 ^ length xs \<le> digit_val y * 10 ^ length xs"
      by (rule mult_le_mono1)
    moreover have "decimal_value xs < 10 ^ length xs"
      by (rule decimal_value_bound [OF dxs])
    ultimately have "digit_val x * 10 ^ length xs + decimal_value xs < digit_val y * 10 ^ length xs"
      by (simp add: algebra_simps)
    then show ?thesis
      using Cons.hyps by (simp add: decimal_value_Cons)
  next
    assume "x = y \<and> xs < ys"
    with Cons.IH [OF dxs dys] Cons.hyps show ?thesis
      by (simp add: decimal_value_Cons)
  qed
qed

lemma padded_mono:
  assumes "i \<le> k" "k < 10000"
  shows "zfill 4 (digits_of i) \<le> zfill 4 (digits_of k)"
proof (rule ccontr)
  assume "\<not> zfill 4 (digits_of i) \<le> zfill 4 (digits_of k)"
  then have "zfill 4 (digits_of k) < zfill 4 (digits_of i)" by simp
  moreover have "length (zfill 4 (digits_of k)) = length (zfill 4 (digits_of i))"
    using assms by (simp add: padded_length)
  ultimately have "decimal_value (zfill 4 (digits_of k)) < decimal_value (zfill 4 (digits_of i))"
    by (intro lex_less_decimal padded_digits(2))
  with assms(1) show False by (simp add: padded_value)
qed

lemma generated_mono: "i \<le> k \<Longrightarrow> k < 10000 \<Longrightarrow> generated_id i \<le> generated_id k"
  using padded_mono [of i k] by (simp add: generated_id_def py_str_def)

lemma generated_10000: "generated_id 10000 = ''APT10000''"
  by (simp add: generated_id_def zfill_def py_str_def digits_of.simps digit_char_def)

lemma generated_9999: "generated_id 9999 = ''APT9999''"
  by (simp add: generated_id_def zfill_def py_str_def digits_of.simps digit_char_def)

lemma generated_le_9999:
  assumes "i \<le> 10000"
  shows "generated_id i \<le> generated_id 9999"
proof (cases "i = 10000")
  case True
  then show ?thesis by (simp add: generated_10000 generated_9999)
next
  case False
  with assms show ?thesis by (simp add: generated_mono)
qed

subsection \<open>The last appointment and the next identifier\<close>

lemma fold_max_ge:
  "appointment_id a \<le>
     appointment_id (fold (\<lambda>b m. if appointment_id m < appointment_id b then b else m) as a) \<and>
   (\<forall>x\<in>set as. appointment_id x \<le>
     appointment_id (fold (\<lambda>b m. if appointment_id m < appointment_id b then b else m) as a))"
proof (induction as arbitrary: a)
  case Nil
  show ?case by simp
next
  case (Cons b as)
  let ?m = "if appointment_id a < appointment_id b then b else a"
  have "appointment_id a \<le> appointment_id ?m" "appointment_id b \<le> appointment_id ?m"
    by auto
  with Cons [of ?m] show ?case
    by (auto intro: order_trans)
qed

lemma last_appointment_max:
  assumes "rows \<noteq> []"
  shows "\<exists>l. last_appointment rows = Some l \<and> l \<in> set rows \<and>
             (\<forall>a\<in>set rows. appointment_id a \<le> appointment_id l)"
proof -
  from assms obtain a as where rows: "rows = a # as" by (cases rows) auto
  let ?l = "fold (\<lambda>b m. if appointment_id m < appointment_id b then b else m) as a"
  have "last_appointment rows = Some ?l" by (simp add: last_appointment_def rows)
  moreover have "?l \<in> set rows" using fold_max_in [of as a] by (simp add: rows)
  moreover have "\<forall>x\<in>set rows. appointment_id x \<le> appointment_id ?l"
    using fold_max_ge [of a as] by (simp add: rows)
  ultimately show ?thesis by blast
qed

lemma last_of_greatest:
  assumes "g \<in> set (map appointment_id rows)"
    and "\<forall>i\<in>set (map appointment_id rows). i \<le> g"
  shows "\<exists>l. last_appointment rows = Some l \<and> appointment_id l = g"
proof -
  from assms(1) have "rows \<noteq> []" by auto
  from last_appointment_max [OF this] obtain l where
    l: "last_appointment rows = Some l" "l \<in> set rows"
       "\<forall>a\<in>set rows. appointment_id a \<le> appointment_id l"
    by blast
  from l(2) assms(2) have "appointment_id l \<le> g" by simp
  moreover from assms(1) l(3) have "g \<le> appointment_id l" by auto
  ultimately show ?thesis using l(1) by simp
qed

lemma next_id_sequence:
  assumes "map appointment_id rows = map generated_id [1..<Suc k]" "k < 10000"
  shows "next_id rows = Some (int (Suc k))"
proof (cases "k = 0")
  case True
  with assms(1) show ?thesis by (simp add: next_id_def last_appointment_def)
next
  case False
  then have "generated_id k \<in> set (map appointment_id rows)"
    by (simp add: assms(1))
  moreover have "\<forall>i\<in>set (map appointment_id rows). i \<le> generated_id k"
    using assms(2) by (auto simp: assms(1) intro: generated_mono)
  ultimately obtain l where "last_appointment rows = Some l" "appointment_id l = generated_id k"
    using last_of_greatest by blast
  then show ?thesis by (simp add: next_id_def py_int_generated)
qed

lemma next_id_after_10000:
  assumes "map appointment_id rows = map generated_id [1..<10001]"
  shows "next_id rows = Some 10000"
proof -
  have "generated_id 9999 \<in> set (map appointment_id rows)"
    by (simp add: assms)
  moreover have "\<forall>i\<in>set (map appointment_id rows). i \<le> generated_id 9999"
    by (auto simp: assms intro: generated_le_9999)
  ultimately obtain l where "last_appointment rows = Some l" "appointment_id l = generated_id 9999"
    using last_of_greatest by blast
  then show ?thesis by (simp add: next_id_def py_int_generated)
qed

lemma new_id_generated: "''APT'' @ zfill 4 (py_str (int k)) = generated_id k"
  by (simp add: generated_id_def)

lemma new_id_generated_Cons:
  "CHR ''A'' # CHR ''P'' # CHR ''T'' # zfill 4 (py_str (int k)) = generated_id k"
  by (simp add: generated_id_def)

lemma digit_not_nul: "is_digit c \<Longrightarrow> c \<noteq> CHR 0x00"
  by (auto simp: is_digit_def)

lemma generated_fits:
  assumes "k \<le> 10000"
  shows "fits 50 (generated_id k)"
proof -
  have "CHR 0x00 \<notin> set (zfill 4 (digits_of k))"
    using padded_digits(2) [of k] digit_not_nul by (auto simp: list_all_iff)
  moreover have "length (digits_of k) \<le> 5"
    using assms by (intro length_digits_of) simp_all
  then have "length (zfill 4 (digits_of k)) \<le> 5"
    by (simp add: padded_digits(1))
  ultimately show ?thesis
    by (simp add: fits_def generated_id_def py_str_def)
qed

lemma stored_generated_id:
  assumes "stored_form (stored_row req (generated_id k)) = Some row" "k \<le> 10000"
  shows "appointment_id row = generated_id k"
  using stored_form_fields(1) [OF assms(1)] pg_varchar_fits [OF generated_fits [OF assms(2)]]
  by (simp add: stored_row_def)

lemma create_after_10000:
  assumes "map appointment_id rows = map generated_id [1..<10001]"
  shows "create_appointment rows req =
     (Inl (if find (conflicting req) rows = None then internal_error else conflict_error), rows)"
proof (cases "find (conflicting req) rows")
  case (Some existing)
  then show ?thesis
    by (simp add: create_appointment_unfold next_id_after_10000 [OF assms])
next
  case None
  have new: "CHR ''A'' # CHR ''P'' # CHR ''T'' # zfill 4 (py_str 10000) = generated_id 10000"
    using new_id_generated_Cons [of 10000] by simp
  have taken: "generated_id 10000 \<in> set (map appointment_id rows)"
    by (simp add: assms)
  show ?thesis
  proof (cases "stored_form (stored_row req (generated_id 10000))")
    case None
    with \<open>find (conflicting req) rows = None\<close> show ?thesis
      by (simp add: create_appointment_unfold next_id_after_10000 [OF assms] new)
  next
    case (Some row)
    from stored_generated_id [OF Some] taken
    have "appointment_id row \<in> set (map appointment_id rows)" by simp
    with Some \<open>find (conflicting req) rows = None\<close> show ?thesis
      by (simp add: create_appointment_unfold next_id_after_10000 [OF assms] new)
  qed
qed

lemma create_in_sequence_cases:
  assumes "map appointment_id rows = map generated_id [1..<Suc k]" "k < 10000"
  shows "(\<exists>e. create_appointment rows req = (Inl e, rows)) \<or>
         (\<exists>row. appointment_id row = generated_id (Suc k) \<and> status row = ''SCHEDULED'' \<and>
                create_appointment rows req = (Inr row, rows @ [row]))"
proof (cases "\<exists>e. create_appointment rows req = (Inl e, rows)")
  case True
  then show ?thesis by blast
next
  case False
  with create_cases [of rows req] obtain n row where
    n: "next_id rows = Some n" and
    v: "pg_varchar 50 (''APT'' @ zfill 4 (py_str n)) = Some (appointment_id row)" and
    st: "status row = ''SCHEDULED''" and
    res: "create_appointment rows req = (Inr row, rows @ [row])"
    by blast
  from n next_id_sequence [OF assms] have "n = int (Suc k)" by simp
  with v have "pg_varchar 50 (generated_id (Suc k)) = Some (appointment_id row)"
    by (simp only: new_id_generated)
  moreover from assms(2) have "fits 50 (generated_id (Suc k))"
    by (intro generated_fits) simp
  ultimately have "appointment_id row = generated_id (Suc k)"
    by (simp add: pg_varchar_fits)
  with st res show ?thesis by blast
qed

lemma create_in_sequence:
  assumes "map appointment_id rows = map generated_id [1..<Suc k]" "k < 10000"
    and "fits_columns req"
  shows "create_appointment rows req =
     (if find (conflicting req) rows = None
      then (Inr (stored_row req (generated_id (Suc k))),
            rows @ [stored_row req (generated_id (Suc k))])
      else (Inl conflict_error, rows))"
proof -
  have fresh: "generated_id (Suc k) \<notin> set (map appointment_id rows)"
    by (auto simp: assms(1) dest: generated_id_inj)
  have new: "CHR ''A'' # CHR ''P'' # CHR ''T'' # zfill 4 (py_str (int (Suc k))) =
      generated_id (Suc k)"
    by (rule new_id_generated_Cons)
  from assms(2) have "fits 50 (generated_id (Suc k))"
    by (intro generated_fits) simp
  from stored_form_stored_row [OF assms(3) this]
  have stored: "stored_form (stored_row req (generated_id (Suc k))) =
      Some (stored_row req (generated_id (Suc k)))" .
  have id: "appointment_id (stored_row req (generated_id (Suc k))) = generated_id (Suc k)"
    by (simp add: stored_row_def)
  show ?thesis
    using fresh
    by (simp add: create_appointment_unfold next_id_sequence [OF assms(1,2)] new stored id
        del: of_nat_Suc split: option.splits)
qed

lemma set_status_ids: "map appointment_id (set_status aid v rows) = map appointment_id rows"
  by (induction rows) simp_all

lemma update_ids:
  "map appointment_id (snd (update_appointment_status rows aid st)) = map appointment_id rows"
  by (simp add: update_appointment_status_def set_status_ids split: sum.splits)

lemma sequence_extend:
  "map generated_id [1..<Suc k] @ [generated_id (Suc k)] = map generated_id [1..<Suc (Suc k)]"
  by simp

lemma reachable_ids:
  "reachable rows \<Longrightarrow>
   \<exists>k\<le>10000. map appointment_id rows = map generated_id [1..<Suc k]"
proof (induction rule: reachable.induct)
  case initial
  show ?case by (intro exI [of _ 0]) simp
next
  case (created rows today b)
  then obtain k where k: "k \<le> 10000" "map appointment_id rows = map generated_id [1..<Suc k]"
    by blast
  show ?case
  proof (cases "parse_request today b")
    case (Inl e)
    with k show ?thesis by (auto simp: create_new_appointment_def)
  next
    case (Inr req)
    then have snd_eq: "snd (create_new_appointment today rows b) =
        snd (create_appointment rows req)"
      by (simp add: create_new_appointment_def snd_respond)
    show ?thesis
    proof (cases "k = 10000")
      case True
      with k(2) have "snd (create_appointment rows req) = rows"
        by (simp add: create_after_10000)
      with k snd_eq show ?thesis by auto
    next
      case False
      with k(1) have lt: "k < 10000" by simp
      from create_in_sequence_cases [OF k(2) lt, of req] show ?thesis
      proof
        assume "\<exists>e. create_appointment rows req = (Inl e, rows)"
        then have "snd (create_appointment rows req) = rows" by auto
        with k snd_eq show ?thesis by auto
      next
        assume "\<exists>row. appointment_id row = generated_id (Suc k) \<and> status row = ''SCHEDULED'' \<and>
                create_appointment rows req = (Inr row, rows @ [row])"
        then obtain row where "appointment_id row = generated_id (Suc k)"
          "snd (create_appointment rows req) = rows @ [row]" by auto
        with k(2) snd_eq have "map appointment_id (snd (create_new_appointment today rows b)) =
            map generated_id [1..<Suc (Suc k)]"
          by simp
        moreover from lt have "Suc k \<le> 10000" by simp
        ultimately show ?thesis by blast
      qed
    qed
  qed
next
  case (updated rows today aid body_status)
  have "map appointment_id (snd (update_status today rows aid body_status)) =
        map appointment_id rows"
    by (simp add: update_status_def update_ids snd_respond split: sum.splits)
  with updated.IH show ?case by (simp only:)
qed

lemma busy_reachable: "reachable (busy_table n)"
  by (induction n) (simp_all add: reachable.initial reachable.created)

lemma example_body_parsed:
  "parse_request example_day (example_body example_day (0, 0, 0, n) (0, 0, 0, Suc n)) =
     Inr (example_request example_day (0, 0, 0, n) (0, 0, 0, Suc n))"
  by (rule parse_example_body) simp_all

lemma busy_table_ids:
  "n \<le> 10000 \<Longrightarrow>
   map appointment_id (busy_table n) = map generated_id [1..<Suc n] \<and>
   list_all (\<lambda>a. appointment_end_time a \<le> (0, 0, 0, n)) (busy_table n)"
proof (induction n)
  case 0
  show ?case by simp
next
  case (Suc n)
  then have ids: "map appointment_id (busy_table n) = map generated_id [1..<Suc n]"
    and ends: "list_all (\<lambda>a. appointment_end_time a \<le> (0, 0, 0, n)) (busy_table n)"
    and lt: "n < 10000" by simp_all
  let ?req = "example_request example_day (0, 0, 0, n) (0, 0, 0, Suc n)"
  from ends have "find (conflicting ?req) (busy_table n) = None"
    by (auto simp: find_None_iff list_all_iff conflicting_def example_request_def)
  then have step: "busy_table (Suc n) = busy_table n @ [stored_row ?req (generated_id (Suc n))]"
    by (simp add: create_new_appointment_def example_body_parsed snd_respond
        create_in_sequence [OF ids lt fits_example])
  have "list_all (\<lambda>a. appointment_end_time a \<le> (0, 0, 0, Suc n)) (busy_table n)"
    using ends by (auto simp: list_all_iff intro: order_trans)
  then show ?case
    unfolding step using ids
    by (simp add: stored_row_def example_request_def)
qed

lemma generated_well_formed: "well_formed_id (generated_id k)"
  using padded_digits(2,3) [of k]
  by (simp add: well_formed_id_def drop_generated) (simp add: generated_id_def)

lemma reachable_well_formed:
  assumes "reachable rows"
  shows "well_formed_ids rows"
proof -
  from reachable_ids [OF assms] obtain k where
    "map appointment_id rows = map generated_id [1..<Suc k]" by blast
  then have "set (map appointment_id rows) \<subseteq> range generated_id" by auto
  then show ?thesis
    by (auto simp: well_formed_ids_def list_all_iff generated_well_formed)
qed

text \<open>
  The smallest table with a five-digit identifier: the last appointment in string order is
  APT9999, the next identifier is APT10000 again, and creation ends in the 500 response.
\<close>

lemma five_digit_table_evaluation:
  "well_formed_ids five_digit_table \<and>
   map_option appointment_id (last_appointment five_digit_table) = Some ''APT9999'' \<and>
   next_id five_digit_table = Some 10000 \<and>
   ''APT'' @ zfill 4 (py_str 10000) = ''APT10000'' \<and>
   create_appointment five_digit_table (example_request example_day (11, 0, 0, 0) (12, 0, 0, 0)) =
     (Inl internal_error, five_digit_table)"
proof -
  have wf: "well_formed_ids five_digit_table"
    by (simp add: well_formed_ids_def well_formed_id_def five_digit_table_def example_row_def
        is_digit_def)
  have l: "map_option appointment_id (last_appointment five_digit_table) = Some ''APT9999''"
    by (simp add: last_appointment_def five_digit_table_def example_row_def)
  have n: "next_id five_digit_table = Some 10000"
    by (simp add: next_id_def last_appointment_def five_digit_table_def example_row_def
        py_int_def is_space_def is_digit_def digit_val_def)
  have z: "zfill 4 (py_str 10000) = ''10000''"
    by (simp add: zfill_def py_str_def digits_of.simps digit_char_def)
  have "create_appointment five_digit_table
          (example_request example_day (11, 0, 0, 0) (12, 0, 0, 0)) =
        (Inl internal_error, five_digit_table)"
  proof -
    have "find (conflicting (example_request example_day (11, 0, 0, 0) (12, 0, 0, 0)))
            five_digit_table = None"
      by (simp add: five_digit_table_def example_row_def example_request_def conflicting_def)
    moreover have "''APT10000'' \<in> set (map appointment_id five_digit_table)"
      by (simp add: five_digit_table_def example_row_def)
    ultimately show ?thesis
      by (simp add: create_appointment_unfold n z stored_example stored_form_example fits_def
          example_row_id)
  qed
  with wf l n z show ?thesis by simp
qed

text \<open>
  Claim C3. Identifier generation after 10000 sequential creations. The table is reachable
  and holds exactly the identifiers APT0001 to APT10000. The query for the last appointment
  orders identifiers as strings and so returns APT9999; the generator forms APT10000 again,
  the insertion violates the uniqueness of the column, and every further creation ends in an
  error with the table unchanged: the 500 response unless the request is refused for a
  conflict first.
\<close>

theorem no_creation_after_10000:
  "reachable (busy_table 10000) \<and>
   map appointment_id (busy_table 10000) = map generated_id [1..<10001] \<and>
   create_appointment (busy_table 10000) req =
     (Inl (if find (conflicting req) (busy_table 10000) = None
           then internal_error else conflict_error), busy_table 10000)"
proof -
  have ids: "map appointment_id (busy_table 10000) = map generated_id [1..<10001]"
    using busy_table_ids [of 10000] by simp
  from busy_reachable ids create_after_10000 [OF ids] show ?thesis by simp
qed

section \<open>Conflict and success of creation\<close>

lemma reachable_length:
  assumes "reachable rows"
  shows "length rows \<le> 10000 \<and>
         map appointment_id rows = map generated_id [1..<Suc (length rows)]"
proof -
  from reachable_ids [OF assms] obtain k where
    k: "k \<le> 10000" "map appointment_id rows = map generated_id [1..<Suc k]" by blast
  from k(2) have "length (map appointment_id rows) = length (map generated_id [1..<Suc k])"
    by (rule arg_cong)
  then have "length rows = k" by simp
  with k show ?thesis by simp
qed

lemma create_example:
  assumes "next_id rows = Some (int k)" "k \<le> 10000"
    and "find (conflicting (example_request day t1 t2)) rows = None"
    and "generated_id k \<notin> set (map appointment_id rows)"
  shows "create_appointment rows (example_request day t1 t2) =
     (Inr (example_row (generated_id k) day t1 t2 ''SCHEDULED''),
      rows @ [example_row (generated_id k) day t1 t2 ''SCHEDULED''])"
  using assms(1,3,4) generated_fits [OF assms(2)]
  by (simp add: create_appointment_unfold new_id_generated_Cons stored_example
      stored_form_example example_row_id)

lemma generated_small:
  "generated_id 1 = ''APT0001''" "generated_id 2 = ''APT0002''"
  "generated_id 3 = ''APT0003''" "generated_id 4 = ''APT0004''"
  by (simp_all add: generated_id_def zfill_def py_str_def digits_of.simps digit_char_def
      numeral_3_eq_3)

lemma create_endpoint_example:
  assumes "create_appointment rows (example_request example_day t1 t2) = (Inr a, rows @ [a])"
    and "t1 < t2"
  shows "snd (create_new_appointment example_day rows (example_body example_day t1 t2)) =
         rows @ [a]"
  using assms by (simp add: create_new_appointment_def parse_example_body snd_respond)

lemma reachable_created:
  assumes "reachable rows" "snd (create_new_appointment today rows b) = rows'"
  shows "reachable rows'"
  using reachable.created [OF assms(1), of today b] by (simp only: assms(2))

lemma reachable_updated:
  assumes "reachable rows" "snd (update_status today rows aid body_status) = rows'"
  shows "reachable rows'"
  using reachable.updated [OF assms(1), of today aid body_status] by (simp only: assms(2))

lemma reachable_example_table: "reachable example_table"
proof -
  let ?r1 = "example_row ''APT0001'' example_day (9, 0, 0, 0) (10, 0, 0, 0) ''SCHEDULED''"
  let ?r2 = "example_row ''APT0002'' example_day (11, 0, 0, 0) (12, 0, 0, 0) ''SCHEDULED''"
  let ?r2' = "example_row ''APT0002'' example_day (11, 0, 0, 0) (12, 0, 0, 0) ''PENDING''"
  let ?r3 = "example_row ''APT0003'' example_day (10, 0, 0, 0) (11, 0, 0, 0) ''SCHEDULED''"
  let ?r3' = "example_row ''APT0003'' example_day (10, 0, 0, 0) (11, 0, 0, 0) ''CANCELLED''"
  have "snd (create_new_appointment example_day []
          (example_body example_day (9, 0, 0, 0) (10, 0, 0, 0))) = [] @ [?r1]"
    by (rule create_endpoint_example) (simp_all add: create_first)
  then have "snd (create_new_appointment example_day []
          (example_body example_day (9, 0, 0, 0) (10, 0, 0, 0))) = [?r1]"
    by simp
  then have 1: "reachable [?r1]"
    by (rule reachable_created [OF reachable.initial])
  have "create_appointment [?r1] (example_request example_day (11, 0, 0, 0) (12, 0, 0, 0)) =
      (Inr (example_row (generated_id 2) example_day (11, 0, 0, 0) (12, 0, 0, 0) ''SCHEDULED''),
       [?r1] @ [example_row (generated_id 2) example_day (11, 0, 0, 0) (12, 0, 0, 0) ''SCHEDULED''])"
    by (rule create_example)
       (simp_all add: next_id_def last_appointment_def example_row_def example_request_def
         conflicting_def py_int_def is_space_def is_digit_def digit_val_def generated_small)
  then have "snd (create_new_appointment example_day [?r1]
          (example_body example_day (11, 0, 0, 0) (12, 0, 0, 0))) = [?r1] @ [?r2]"
    by (intro create_endpoint_example) (simp_all add: generated_small)
  then have 2: "reachable [?r1, ?r2]"
    by (simp add: reachable_created [OF 1])
  have "snd (update_status example_day [?r1, ?r2] ''APT0002'' ''PENDING'') = [?r1, ?r2']"
    by (simp add: update_status_def parse_status_def update_appointment_status_def
        get_appointment_by_id_def snd_respond example_row_def)
  then have "snd (update_status example_day [?r1, ?r2] ''APT0002'' ''PENDING'') = [?r1, ?r2']"
    by simp
  then have 3: "reachable [?r1, ?r2']"
    by (rule reachable_updated [OF 2])
  have "create_appointment [?r1, ?r2'] (example_request example_day (10, 0, 0, 0) (11, 0, 0, 0)) =
      (Inr (example_row (generated_id 3) example_day (10, 0, 0, 0) (11, 0, 0, 0) ''SCHEDULED''),
       [?r1, ?r2'] @
         [example_row (generated_id 3) example_day (10, 0, 0, 0) (11, 0, 0, 0) ''SCHEDULED''])"
    by (rule create_example)
       (simp_all add: next_id_def last_appointment_def example_row_def example_request_def
         conflicting_def py_int_def is_space_def is_digit_def digit_val_def generated_small)
  then have "snd (create_new_appointment example_day [?r1, ?r2']
          (example_body example_day (10, 0, 0, 0) (11, 0, 0, 0))) = [?r1, ?r2'] @ [?r3]"
    by (intro create_endpoint_example) (simp_all add: generated_small)
  then have 4: "reachable [?r1, ?r2', ?r3]"
    by (simp add: reachable_created [OF 3])
  have "snd (update_status example_day [?r1, ?r2', ?r3] ''APT0003'' ''CANCELLED'') =
      [?r1, ?r2', ?r3']"
    by (simp add: update_status_def parse_status_def update_appointment_status_def
        get_appointment_by_id_def snd_respond example_row_def)
  then have "reachable [?r1, ?r2', ?r3']"
    by (simp add: reachable_updated [OF 4])
  then show ?thesis by (simp add: example_table_def)
qed

text \<open>
  Claim C1. On a table whose identifiers all have the generated format, as every reachable
  table has, creation answers with the scheduling-conflict error (status 400) exactly when
  some stored appointment has the same doctor and date, a status other than CANCELLED, and
  a time interval that overlaps the requested one in the half-open sense: it starts before
  the request ends and ends after the request starts. That error differs from the 500
  response of the generic handler, and it leaves the table unchanged. On a reachable table
  with fewer than 10000 rows, a request whose text fields fit their columns and which no
  such appointment overlaps, back to back or against cancelled appointments only, is
  stored: the new row carries the fields of the request, the next identifier and the
  status SCHEDULED, and it is appended to the table.
\<close>

theorem create_appointment_conflict_iff:
  "(well_formed_ids rows \<longrightarrow>
      ((fst (create_appointment rows req) = Inl conflict_error) =
       (\<exists>a\<in>set rows.
          doctor_id a = doctor_id req \<and> appointment_date a = appointment_date req \<and>
          status a \<noteq> ''CANCELLED'' \<and>
          appointment_start_time a < appointment_end_time req \<and>
          appointment_start_time req < appointment_end_time a)) \<and>
      (fst (create_appointment rows req) = Inl conflict_error \<longrightarrow>
         snd (create_appointment rows req) = rows)) \<and>
   conflict_error \<noteq> internal_error \<and>
   (reachable rows \<longrightarrow> well_formed_ids rows) \<and>
   (reachable rows \<and> length rows < 10000 \<and> fits_columns req \<and>
    \<not> (\<exists>a\<in>set rows.
          doctor_id a = doctor_id req \<and> appointment_date a = appointment_date req \<and>
          status a \<noteq> ''CANCELLED'' \<and>
          appointment_start_time a < appointment_end_time req \<and>
          appointment_start_time req < appointment_end_time a) \<longrightarrow>
      create_appointment rows req =
        (Inr (stored_row req (generated_id (Suc (length rows)))),
         rows @ [stored_row req (generated_id (Suc (length rows)))]))"
proof (intro conjI impI)
  assume "well_formed_ids rows"
  from conflict_error_iff [OF this, of req]
  show "(fst (create_appointment rows req) = Inl conflict_error) =
       (\<exists>a\<in>set rows.
          doctor_id a = doctor_id req \<and> appointment_date a = appointment_date req \<and>
          status a \<noteq> ''CANCELLED'' \<and>
          appointment_start_time a < appointment_end_time req \<and>
          appointment_start_time req < appointment_end_time a)"
    by (simp add: conflicting_def)
next
  assume "fst (create_appointment rows req) = Inl conflict_error"
  then show "snd (create_appointment rows req) = rows"
    by (rule create_error_unchanged)
next
  show "conflict_error \<noteq> internal_error"
    by (rule conflict_not_internal)
next
  assume "reachable rows"
  then show "well_formed_ids rows"
    by (rule reachable_well_formed)
next
  assume a: "reachable rows \<and> length rows < 10000 \<and> fits_columns req \<and>
    \<not> (\<exists>a\<in>set rows.
          doctor_id a = doctor_id req \<and> appointment_date a = appointment_date req \<and>
          status a \<noteq> ''CANCELLED'' \<and>
          appointment_start_time a < appointment_end_time req \<and>
          appointment_start_time req < appointment_end_time a)"
  then have ids: "map appointment_id rows = map generated_id [1..<Suc (length rows)]"
    using reachable_length by blast
  from a have "\<not> (\<exists>a\<in>set rows. conflicting req a)"
    by (simp add: conflicting_def)
  then have "find (conflicting req) rows = None"
    by (simp add: find_conflicting_iff)
  with a create_in_sequence [OF ids, of req]
  show "create_appointment rows req =
        (Inr (stored_row req (generated_id (Suc (length rows)))),
         rows @ [stored_row req (generated_id (Suc (length rows)))])"
    by simp
qed

text \<open>
  The sample table holds 09:00 to 10:00 (SCHEDULED), 11:00 to 12:00 (PENDING) and
  10:00 to 11:00 (CANCELLED) for one doctor and day; it is reachable. A request for 09:30
  to 10:30 is refused with the conflict error and the table is unchanged; a request for
  10:00 to 11:00, back to back with both live appointments and overlapping only the
  cancelled one, is stored as APT0004.
\<close>

theorem create_appointment_conflict_iff_witness:
  "reachable example_table \<and> well_formed_ids example_table \<and>
   length example_table < 10000 \<and>
   fits_columns (example_request example_day (10, 0, 0, 0) (11, 0, 0, 0)) \<and>
   create_appointment example_table (example_request example_day (9, 30, 0, 0) (10, 30, 0, 0)) =
     (Inl conflict_error, example_table) \<and>
   create_appointment example_table (example_request example_day (10, 0, 0, 0) (11, 0, 0, 0)) =
     (Inr (example_row ''APT0004'' example_day (10, 0, 0, 0) (11, 0, 0, 0) ''SCHEDULED''),
      example_table @ [example_row ''APT0004'' example_day (10, 0, 0, 0) (11, 0, 0, 0) ''SCHEDULED''])"
proof -
  let ?overlap = "example_request example_day (9, 30, 0, 0) (10, 30, 0, 0)"
  let ?between = "example_request example_day (10, 0, 0, 0) (11, 0, 0, 0)"
  note r = reachable_example_table
  from create_appointment_conflict_iff [of example_table ?overlap] r
  have wf: "well_formed_ids example_table" by blast
  have len: "length example_table < 10000"
    by (simp add: example_table_def)
  have "\<exists>a\<in>set example_table.
          doctor_id a = doctor_id ?overlap \<and> appointment_date a = appointment_date ?overlap \<and>
          status a \<noteq> ''CANCELLED'' \<and>
          appointment_start_time a < appointment_end_time ?overlap \<and>
          appointment_start_time ?overlap < appointment_end_time a"
    by (simp add: example_table_def example_row_def example_request_def)
  with create_appointment_conflict_iff [of example_table ?overlap] wf
  have "fst (create_appointment example_table ?overlap) = Inl conflict_error \<and>
        snd (create_appointment example_table ?overlap) = example_table"
    by blast
  then have refused: "create_appointment example_table ?overlap = (Inl conflict_error, example_table)"
    by (simp add: prod_eq_iff)
  have "\<not> (\<exists>a\<in>set example_table.
          doctor_id a = doctor_id ?between \<and> appointment_date a = appointment_date ?between \<and>
          status a \<noteq> ''CANCELLED'' \<and>
          appointment_start_time a < appointment_end_time ?between \<and>
          appointment_start_time ?between < appointment_end_time a)"
    by (simp add: example_table_def example_row_def example_request_def)
  with create_appointment_conflict_iff [of example_table ?between] r len fits_example
  have "create_appointment example_table ?between =
        (Inr (stored_row ?between (generated_id (Suc (length example_table)))),
         example_table @ [stored_row ?between (generated_id (Suc (length example_table)))])"
    by blast
  moreover have "Suc (length example_table) = 4"
    by (simp add: example_table_def)
  then have "generated_id (Suc (length example_table)) = ''APT0004''"
    by (simp only: generated_small(4))
  ultimately have stored: "create_appointment example_table ?between =
     (Inr (example_row ''APT0004'' example_day (10, 0, 0, 0) (11, 0, 0, 0) ''SCHEDULED''),
      example_table @ [example_row ''APT0004'' example_day (10, 0, 0, 0) (11, 0, 0, 0) ''SCHEDULED''])"
    by (simp add: stored_example)
  from r wf len fits_example refused stored show ?thesis by simp
qed

text \<open>
  Two requests that no live appointment overlaps and that are not stored. The first
  overlaps only a cancelled appointment, but its facility id is longer than the column:
  the database refuses the row and creation ends in the 500 response. The second is put to
  the table reached by 10000 sequential creations, where no identifier can be generated
  any more.
\<close>

theorem create_without_conflict_fails:
  "reachable cancelled_table \<and>
   find (conflicting wide_request) cancelled_table = None \<and>
   create_appointment cancelled_table wide_request = (Inl internal_error, cancelled_table) \<and>
   reachable (busy_table 10000) \<and>
   find (conflicting (example_request example_day (11, 0, 0, 0) (12, 0, 0, 0)))
     (busy_table 10000) = None \<and>
   create_appointment (busy_table 10000)
     (example_request example_day (11, 0, 0, 0) (12, 0, 0, 0)) =
     (Inl internal_error, busy_table 10000)"
proof -
  let ?r1 = "example_row ''APT0001'' example_day (9, 0, 0, 0) (10, 0, 0, 0) ''SCHEDULED''"
  have "snd (create_new_appointment example_day []
          (example_body example_day (9, 0, 0, 0) (10, 0, 0, 0))) = [] @ [?r1]"
    by (rule create_endpoint_example) (simp_all add: create_first)
  then have "snd (create_new_appointment example_day []
          (example_body example_day (9, 0, 0, 0) (10, 0, 0, 0))) = [?r1]"
    by simp
  then have 1: "reachable [?r1]"
    by (rule reachable_created [OF reachable.initial])
  have "snd (update_status example_day [?r1] ''APT0001'' ''CANCELLED'') = cancelled_table"
    by (simp add: update_status_def parse_status_def update_appointment_status_def
        get_appointment_by_id_def snd_respond example_row_def cancelled_table_def)
  then have "snd (update_status example_day [?r1] ''APT0001'' ''CANCELLED'') = cancelled_table"
    by simp
  then have r: "reachable cancelled_table"
    by (rule reachable_updated [OF 1])
  have nf: "find (conflicting wide_request) cancelled_table = None"
    by (simp add: cancelled_table_def wide_request_def example_row_def example_request_def
        conflicting_def)
  have n: "next_id cancelled_table = Some 2"
    by (simp add: next_id_def last_appointment_def cancelled_table_def example_row_def
        py_int_def is_space_def is_digit_def digit_val_def)
  have "pg_varchar 50 (facility_id wide_request) = None"
    by (simp add: pg_varchar_def wide_request_def example_request_def)
  then have "stored_form (stored_row wide_request aid) = None" for aid
    by (simp add: stored_form_def stored_row_def split: Option.bind_splits)
  with nf n have wide: "create_appointment cancelled_table wide_request =
      (Inl internal_error, cancelled_table)"
    by (simp add: create_appointment_unfold)
  let ?late = "example_request example_day (11, 0, 0, 0) (12, 0, 0, 0)"
  have ids: "map appointment_id (busy_table 10000) = map generated_id [1..<10001]"
    and ends: "list_all (\<lambda>a. appointment_end_time a \<le> (0, 0, 0, 10000)) (busy_table 10000)"
    using busy_table_ids [of 10000] by simp_all
  have free: "find (conflicting ?late) (busy_table 10000) = None"
  proof -
    have "\<not> conflicting ?late a" if "a \<in> set (busy_table 10000)" for a
    proof -
      from ends that have "appointment_end_time a \<le> (0, 0, 0, 10000)"
        by (simp add: list_all_iff)
      also have "\<dots> < (11, 0, 0, 0)" by simp
      finally have "\<not> (11, 0, 0, 0) < appointment_end_time a" by simp
      then show ?thesis by (simp add: conflicting_def example_request_def)
    qed
    then show ?thesis by (simp add: find_None_iff)
  qed
  with create_after_10000 [OF ids, of ?late]
  have "create_appointment (busy_table 10000) ?late = (Inl internal_error, busy_table 10000)"
    by simp
  with r nf wide busy_reachable [of 10000] free show ?thesis by simp
qed

end
